theory Spec2Isabelle
  imports Complex_Main
begin

section \<open>Interstellar: the Houdini automation scripts\<close>

text \<open>
  The scripts under \<open>scripts/\<close> drive the scene graph of a host application through
  its \<open>hou\<close> module, talk to an image service over HTTP and write files. The host, the
  HTTP service and the file system are outside the repository; they are modelled below
  as a \<open>host\<close> record (what the outside world answers) and a \<open>world\<close> record (what
  the scripts can change). Every function of the scripts is a state transformer over
  the world that returns either an exception or a value, together with the world as it
  is at that point, so that the effects made before an exception are kept, as in Python.
\<close>

subsection \<open>Exceptions and the program monad\<close>

text \<open>
  All exceptions of the model are subclasses of Python's \<open>Exception\<close>; the handlers
  of the source are all \<open>except Exception\<close>, so one handler shape is enough.
\<close>

datatype exn =
    RuntimeError string
  | AttributeError string
  | TypeError string
  | KeyError string
  | IndexError string
  | OperationFailed string
  | ObjectWasDeleted
  | OSError string
  | RequestError string
  | HTTPError string
  | JSONDecodeError string
  | BinasciiError string

fun exn_str :: "exn \<Rightarrow> string" where
  "exn_str (RuntimeError m) = m"
| "exn_str (AttributeError m) = m"
| "exn_str (TypeError m) = m"
| "exn_str (KeyError m) = m"
| "exn_str (IndexError m) = m"
| "exn_str (OperationFailed m) = m"
| "exn_str ObjectWasDeleted = ''object was deleted''"
| "exn_str (OSError m) = m"
| "exn_str (RequestError m) = m"
| "exn_str (HTTPError m) = m"
| "exn_str (JSONDecodeError m) = m"
| "exn_str (BinasciiError m) = m"

type_synonym ('w, 'a) prog = "'w \<Rightarrow> (exn + 'a) \<times> 'w"

definition ret :: "'a \<Rightarrow> ('w, 'a) prog" where
  "ret x = (\<lambda>w. (Inr x, w))"

definition raise :: "exn \<Rightarrow> ('w, 'a) prog" where
  "raise e = (\<lambda>w. (Inl e, w))"

definition bnd :: "('w, 'a) prog \<Rightarrow> ('a \<Rightarrow> ('w, 'b) prog) \<Rightarrow> ('w, 'b) prog" where
  "bnd m f = (\<lambda>w. case m w of (Inl e, w') \<Rightarrow> (Inl e, w') | (Inr x, w') \<Rightarrow> f x w')"

definition thn :: "('w, unit) prog \<Rightarrow> ('w, 'b) prog \<Rightarrow> ('w, 'b) prog" where
  "thn m k = bnd m (\<lambda>_. k)"

text \<open>\<open>try: m except Exception as exc: h exc\<close>\<close>

definition try_except :: "('w, 'a) prog \<Rightarrow> (exn \<Rightarrow> ('w, 'a) prog) \<Rightarrow> ('w, 'a) prog" where
  "try_except m h = (\<lambda>w. case m w of (Inl e, w') \<Rightarrow> h e w' | (Inr x, w') \<Rightarrow> (Inr x, w'))"

text \<open>A block of statements, run in order, stopping at the first exception.\<close>

fun block :: "('w, unit) prog list \<Rightarrow> ('w, unit) prog" where
  "block [] = ret ()"
| "block (m # ms) = thn m (block ms)"

subsection \<open>The scene graph\<close>

text \<open>
  A node has a name, a type name, a parent (none for the root \<open>/\<close>), positional inputs,
  the parameter values that were set on it, and its display and render flags. A handle
  is the index of the node in the world's node table; a destroyed node leaves \<open>None\<close>
  at its index. Floating-point parameter values are kept as the rational numbers the
  source's literals denote; no claim depends on their rounding.
\<close>

datatype pval =
    PInt int
  | PNum rat
  | PBool bool
  | PStr string
  | PTuple "rat list"
  | PParm nat string

record hnode =
  nname :: string
  ntype :: string
  nparent :: "nat option"
  ninputs :: "nat option list"
  nparms :: "(string \<times> pval) list"
  ndisplay :: bool
  nrender :: bool

type_synonym path = "string list"

type_synonym bytes = "char list"

datatype fentry = Dir | File bytes

datatype json =
    JNull
  | JBool bool
  | JInt int
  | JNum rat
  | JStr string
  | JArr "json list"
  | JObj "(string \<times> json) list"

text \<open>
  What the scripts can change: the node table, the files on disk, the lines printed to
  standard output, and the HTTP requests sent so far (URL and JSON body, oldest first).
\<close>

record world =
  nodes :: "hnode option list"
  files :: "path \<Rightarrow> fentry option"
  printed :: "string list"
  posted :: "(string \<times> json) list"

text \<open>
  What the outside world answers. \<open>type_parms\<close> is the host's node-type catalogue:
  the parameter names (and parameter-tuple names) of every node type it provides.
  \<open>fresh_name\<close> is the host's choice of a name when the requested one is taken by a
  sibling. \<open>http\<close> is the service's answer to a POST of a JSON body to a URL.
\<close>

datatype reply =
    NoReply string
  | Reply nat "json option"

datatype rendering = RenderFails string | RenderWrites bytes | RenderWritesNothing

record host =
  hou_importable :: bool
  requests_importable :: bool
  python_version :: "nat \<times> nat"
  app_version :: "(nat \<times> string) option"
  type_parms :: "string \<Rightarrow> string list option"
  fresh_name :: "string list \<Rightarrow> string \<Rightarrow> string"
  hip :: string
  cwd :: path
  readable :: "path \<Rightarrow> bool"
  writable :: "path \<Rightarrow> bool"
  rendering :: "path \<Rightarrow> rendering"
  http :: "string \<Rightarrow> json \<Rightarrow> reply"
  b64encode :: "bytes \<Rightarrow> string"
  b64decode :: "string \<Rightarrow> bytes option"

subsection \<open>The host API used by the scripts\<close>

fun first_index :: "('a \<Rightarrow> bool) \<Rightarrow> 'a list \<Rightarrow> nat \<Rightarrow> nat option" where
  "first_index P [] i = None"
| "first_index P (x # xs) i = (if P x then Some i else first_index P xs (Suc i))"

definition get_node :: "world \<Rightarrow> nat \<Rightarrow> hnode option" where
  "get_node w n = (if n < length (nodes w) then nodes w ! n else None)"

definition is_child :: "nat \<Rightarrow> string \<Rightarrow> hnode option \<Rightarrow> bool" where
  "is_child p name x = (case x of None \<Rightarrow> False | Some nd \<Rightarrow> nparent nd = Some p \<and> nname nd = name)"

definition child :: "world \<Rightarrow> nat \<Rightarrow> string \<Rightarrow> nat option" where
  "child w p name = first_index (is_child p name) (nodes w) 0"

definition child_names :: "world \<Rightarrow> nat \<Rightarrow> string list" where
  "child_names w p = map nname (filter (\<lambda>nd. nparent nd = Some p) (List.map_filter id (nodes w)))"

text \<open>Reading or changing a node through a handle whose node was destroyed raises.\<close>

definition node_of :: "nat \<Rightarrow> (world, hnode) prog" where
  "node_of n = (\<lambda>w. case get_node w n of None \<Rightarrow> (Inl ObjectWasDeleted, w) | Some nd \<Rightarrow> (Inr nd, w))"

definition upd_node :: "nat \<Rightarrow> (hnode \<Rightarrow> hnode) \<Rightarrow> (world, unit) prog" where
  "upd_node n f = (\<lambda>w. case get_node w n of
       None \<Rightarrow> (Inl ObjectWasDeleted, w)
     | Some nd \<Rightarrow> (Inr (), w\<lparr>nodes := (nodes w)[n := Some (f nd)]\<rparr>))"

text \<open>\<open>parent.node(name)\<close>: the child of that name, or \<open>None\<close>.\<close>

definition node_child :: "nat \<Rightarrow> string \<Rightarrow> (world, nat option) prog" where
  "node_child p name = bnd (node_of p) (\<lambda>_ w. (Inr (child w p name), w))"

text \<open>\<open>node.type().name()\<close>\<close>

definition type_name :: "nat \<Rightarrow> (world, string) prog" where
  "type_name n = bnd (node_of n) (\<lambda>nd. ret (ntype nd))"

text \<open>
  \<open>parent.createNode(type_name, node_name=name)\<close>: fails for a node type the host
  does not provide; the new node takes the requested name unless a sibling has it.
\<close>

definition new_node :: "string \<Rightarrow> string \<Rightarrow> nat \<Rightarrow> hnode" where
  "new_node name ty p = \<lparr>nname = name, ntype = ty, nparent = Some p, ninputs = [],
     nparms = [], ndisplay = False, nrender = False\<rparr>"

definition createNode :: "host \<Rightarrow> nat \<Rightarrow> string \<Rightarrow> string \<Rightarrow> (world, nat) prog" where
  "createNode h p ty name = bnd (node_of p) (\<lambda>_.
     case type_parms h ty of
       None \<Rightarrow> raise (OperationFailed ''Invalid node type name'')
     | Some _ \<Rightarrow> (\<lambda>w.
         let nm = (if child w p name = None then name else fresh_name h (child_names w p) name)
         in (Inr (length (nodes w)), w\<lparr>nodes := nodes w @ [Some (new_node nm ty p)]\<rparr>)))"

text \<open>\<open>node.input(i)\<close>: the node connected at position \<open>i\<close>, or \<open>None\<close>.\<close>

definition input_at :: "nat option list \<Rightarrow> nat \<Rightarrow> nat option" where
  "input_at xs i = (if i < length xs then xs ! i else None)"

definition input :: "nat \<Rightarrow> nat \<Rightarrow> (world, nat option) prog" where
  "input n i = bnd (node_of n) (\<lambda>nd. ret (input_at (ninputs nd) i))"

text \<open>\<open>node.setInput(i, m)\<close>: connects \<open>m\<close> at position \<open>i\<close>, leaving the others.\<close>

definition connect :: "nat option list \<Rightarrow> nat \<Rightarrow> nat \<Rightarrow> nat option list" where
  "connect xs i m = (xs @ replicate (Suc i - length xs) None)[i := Some m]"

definition setInput :: "nat \<Rightarrow> nat \<Rightarrow> nat \<Rightarrow> (world, unit) prog" where
  "setInput n i m = upd_node n (\<lambda>nd. nd\<lparr>ninputs := connect (ninputs nd) i m\<rparr>)"

subsection \<open>\<open>_get_or_create\<close> and \<open>_connect_merge\<close>\<close>

text \<open>
  \<^verbatim>\<open>
  def _get_or_create(parent, type_name, node_name):
      node = parent.node(node_name)
      if node is None:
          node = parent.createNode(type_name, node_name=node_name)
      return node
  \<close>
  The private functions of \<open>setup_houdini_ai.py\<close> are named here without their
  leading underscore. \<open>get_or_create\<close> of \<open>generate_interstellar_ship.py\<close>, which
  has the same body, is \<open>get_or_create_ship\<close>.
\<close>

definition get_or_create :: "host \<Rightarrow> nat \<Rightarrow> string \<Rightarrow> string \<Rightarrow> (world, nat) prog" where
  "get_or_create h parent ty node_name =
     bnd (node_child parent node_name) (\<lambda>node.
       case node of None \<Rightarrow> createNode h parent ty node_name | Some n \<Rightarrow> ret n)"

definition get_or_create_ship :: "host \<Rightarrow> nat \<Rightarrow> string \<Rightarrow> string \<Rightarrow> (world, nat) prog" where
  "get_or_create_ship h parent ty node_name =
     bnd (node_child parent node_name) (\<lambda>node.
       case node of None \<Rightarrow> createNode h parent ty node_name | Some n \<Rightarrow> ret n)"

text \<open>
  The loop \<open>idx = 1; while node.input(idx) is not None: idx += 1\<close> of
  \<open>_connect_merge\<close>. It only reads the node, so it is a function of the node's inputs;
  it ends because the inputs are finitely many.
\<close>

function free_slot :: "nat option list \<Rightarrow> nat \<Rightarrow> nat" where
  "free_slot xs idx = (if input_at xs idx \<noteq> None then free_slot xs (Suc idx) else idx)"
  by pat_completeness auto
termination
  by (relation "measure (\<lambda>(xs, idx). length xs - idx)") (auto simp: input_at_def split: if_splits)

declare free_slot.simps [simp del]

text \<open>
  \<^verbatim>\<open>
  def _connect_merge(parent, a, b, name="merge"):
      node = parent.node(name)
      if node is None or node.type().name() != "merge":
          node = parent.createNode("merge", node_name=name)
      inputs = [i for i in range(10)]          # unused
      if node.input(0) is None:
          node.setInput(0, a)
          node.setInput(1, b)
      else:
          idx = 1
          while node.input(idx) is not None:
              idx += 1
          node.setInput(idx, b)
          if node.input(0) != a:
              node.setInput(0, a)
      return node
  \<close>
\<close>

definition merge_node :: "host \<Rightarrow> nat \<Rightarrow> string \<Rightarrow> (world, nat) prog" where
  "merge_node h parent name =
     bnd (node_child parent name) (\<lambda>node.
       case node of
         None \<Rightarrow> createNode h parent ''merge'' name
       | Some n \<Rightarrow> bnd (type_name n) (\<lambda>t.
           if t \<noteq> ''merge'' then createNode h parent ''merge'' name else ret n))"

definition connect_merge :: "host \<Rightarrow> nat \<Rightarrow> nat \<Rightarrow> nat \<Rightarrow> string \<Rightarrow> (world, nat) prog" where
  "connect_merge h parent a b name =
     bnd (merge_node h parent name) (\<lambda>node.
     bnd (input node 0) (\<lambda>i0.
       if i0 = None then
         thn (setInput node 0 a) (thn (setInput node 1 b) (ret node))
       else
         bnd (node_of node) (\<lambda>nd.
         thn (setInput node (free_slot (ninputs nd) 1) b) (
         bnd (input node 0) (\<lambda>i0'.
         thn (if i0' \<noteq> Some a then setInput node 0 a else ret ()) (ret node))))))"

subsection \<open>Parameters and flags\<close>

text \<open>
  \<open>node.parm(name)\<close> (and \<open>node.parmTuple(name)\<close>) is \<open>None\<close> when the node's type has
  no such parameter; the model returns whether the parameter exists.
\<close>

definition parm :: "host \<Rightarrow> nat \<Rightarrow> string \<Rightarrow> (world, bool) prog" where
  "parm h n name = bnd (node_of n) (\<lambda>nd.
     ret (case type_parms h (ntype nd) of None \<Rightarrow> False | Some ps \<Rightarrow> name \<in> set ps))"

text \<open>
  \<open>node.parm(name).set(v)\<close> and \<open>node.parmTuple(name).set(v)\<close>: calling \<open>set\<close> on
  \<open>None\<close> raises \<open>AttributeError\<close>.
\<close>

definition parm_set :: "host \<Rightarrow> nat \<Rightarrow> string \<Rightarrow> pval \<Rightarrow> (world, unit) prog" where
  "parm_set h n name v = bnd (parm h n name) (\<lambda>found.
     if found then upd_node n (\<lambda>nd. nd\<lparr>nparms := (name, v) # nparms nd\<rparr>)
     else raise (AttributeError ''NoneType object has no attribute set''))"

definition setDisplayFlag :: "nat \<Rightarrow> bool \<Rightarrow> (world, unit) prog" where
  "setDisplayFlag n b = upd_node n (\<lambda>nd. nd\<lparr>ndisplay := b\<rparr>)"

definition setRenderFlag :: "nat \<Rightarrow> bool \<Rightarrow> (world, unit) prog" where
  "setRenderFlag n b = upd_node n (\<lambda>nd. nd\<lparr>nrender := b\<rparr>)"

subsection \<open>Strings\<close>

text \<open>
  A Python string is modelled by its bytes. \<open>s.lower()\<close> maps the ASCII capitals to
  small letters and keeps every other byte; \<open>sub in s\<close> is the substring test.
\<close>

definition lower_char :: "char \<Rightarrow> char" where
  "lower_char c = (let n = (of_char c :: nat) in if 65 \<le> n \<and> n \<le> 90 then char_of (n + 32) else c)"

definition lower :: "string \<Rightarrow> string" where
  "lower s = map lower_char s"

fun starts_with :: "string \<Rightarrow> string \<Rightarrow> bool" where
  "starts_with [] s = True"
| "starts_with (c # cs) [] = False"
| "starts_with (c # cs) (d # ds) = (c = d \<and> starts_with cs ds)"

fun contains :: "string \<Rightarrow> string \<Rightarrow> bool" where
  "contains sub [] = (sub = [])"
| "contains sub (d # ds) = (starts_with sub (d # ds) \<or> contains sub ds)"

subsection \<open>\<open>_apply_prompt_tweaks\<close>\<close>

text \<open>
  \<^verbatim>\<open>
  def _apply_prompt_tweaks(geo_node, input_node, prompt_text):
      text = prompt_text.lower()
      out = input_node
      if "rivet" in text:
          scatter = _get_or_create(geo_node, "scatter", "rivets_scatter")
          scatter.setInput(0, out)
          scatter.parm("npts").set(400)
          circle = _get_or_create(geo_node, "circle", "rivet_circle")
          circle.parm("type").set(1)
          circle.parm("radx").set(0.05)
          circle.parm("rady").set(0.05)
          ctp = _get_or_create(geo_node, "copytopoints", "rivets_copy")
          ctp.setInput(0, circle)
          ctp.setInput(1, scatter)
          out = _connect_merge(geo_node, out, ctp, name="merge_rivets")
      if "glow" in text or "conduit" in text:
          curve = _get_or_create(geo_node, "curve", "conduit_curve")
          curve.parm("type").set(1)
          curve.parm("coords").set("-1 0 -10  0 0 0  1 0 10")
          polywire = _get_or_create(geo_node, "polywire", "conduit_wire")
          polywire.setInput(0, curve)
          polywire.parm("radius").set(0.05)
          out = _connect_merge(geo_node, out, polywire, name="merge_conduit")
      return out
  \<close>
  The two \<open>if\<close> bodies are the definitions \<open>rivets\<close> and \<open>conduit\<close>.
\<close>

definition rivets :: "host \<Rightarrow> nat \<Rightarrow> nat \<Rightarrow> (world, nat) prog" where
  "rivets h geo_node out =
     bnd (get_or_create h geo_node ''scatter'' ''rivets_scatter'') (\<lambda>scatter.
     thn (setInput scatter 0 out) (
     thn (parm_set h scatter ''npts'' (PInt 400)) (
     bnd (get_or_create h geo_node ''circle'' ''rivet_circle'') (\<lambda>circle.
     thn (parm_set h circle ''type'' (PInt 1)) (
     thn (parm_set h circle ''radx'' (PNum (5 / 100))) (
     thn (parm_set h circle ''rady'' (PNum (5 / 100))) (
     bnd (get_or_create h geo_node ''copytopoints'' ''rivets_copy'') (\<lambda>ctp.
     thn (setInput ctp 0 circle) (
     thn (setInput ctp 1 scatter) (
     connect_merge h geo_node out ctp ''merge_rivets''))))))))))"

definition conduit :: "host \<Rightarrow> nat \<Rightarrow> nat \<Rightarrow> (world, nat) prog" where
  "conduit h geo_node out =
     bnd (get_or_create h geo_node ''curve'' ''conduit_curve'') (\<lambda>curve.
     thn (parm_set h curve ''type'' (PInt 1)) (
     thn (parm_set h curve ''coords'' (PStr ''-1 0 -10  0 0 0  1 0 10'')) (
     bnd (get_or_create h geo_node ''polywire'' ''conduit_wire'') (\<lambda>polywire.
     thn (setInput polywire 0 curve) (
     thn (parm_set h polywire ''radius'' (PNum (5 / 100))) (
     connect_merge h geo_node out polywire ''merge_conduit''))))))"

definition apply_prompt_tweaks :: "host \<Rightarrow> nat \<Rightarrow> nat \<Rightarrow> string \<Rightarrow> (world, nat) prog" where
  "apply_prompt_tweaks h geo_node input_node prompt_text =
     (let text = lower prompt_text in
      bnd (if contains ''rivet'' text then rivets h geo_node input_node else ret input_node) (\<lambda>out.
      if contains ''glow'' text \<or> contains ''conduit'' text then conduit h geo_node out
      else ret out))"

subsection \<open>Files, standard output, HTTP\<close>

text \<open>
  A path is the list of its components; an absolute path starts with the component
  \<open>/\<close>. The empty path is the current directory, which always exists.
\<close>

definition print :: "string \<Rightarrow> (world, unit) prog" where
  "print s = (\<lambda>w. (Inr (), w\<lparr>printed := printed w @ [s]\<rparr>))"

definition entry :: "world \<Rightarrow> path \<Rightarrow> fentry option" where
  "entry w p = (if p = [] then Some Dir else files w p)"

text \<open>\<open>p.exists()\<close>\<close>

definition exists_path :: "path \<Rightarrow> (world, bool) prog" where
  "exists_path p = (\<lambda>w. (Inr (entry w p \<noteq> None), w))"

text \<open>\<open>p.parent\<close>\<close>

fun parent_dir :: "path \<Rightarrow> path" where
  "parent_dir [] = []"
| "parent_dir [c] = (if c = ''/'' then [c] else [])"
| "parent_dir p = butlast p"

text \<open>\<open>str(p)\<close>\<close>

fun path_str :: "path \<Rightarrow> string" where
  "path_str [] = ''.''"
| "path_str [c] = c"
| "path_str (c # cs) = (if c = ''/'' then c @ path_str cs else c @ ''/'' @ path_str cs)"

text \<open>\<open>with p.open("rb") as f: f.read()\<close>\<close>

definition read_bytes :: "host \<Rightarrow> path \<Rightarrow> (world, bytes) prog" where
  "read_bytes h p = (\<lambda>w. case entry w p of
       None \<Rightarrow> (Inl (OSError ''No such file or directory''), w)
     | Some Dir \<Rightarrow> (Inl (OSError ''Is a directory''), w)
     | Some (File bs) \<Rightarrow>
         if readable h p then (Inr bs, w) else (Inl (OSError ''Permission denied''), w))"

text \<open>
  \<open>p.mkdir(parents=True, exist_ok=True)\<close>: creates \<open>p\<close> and its missing ancestors;
  fails when \<open>p\<close> or an ancestor is a file, or when a directory has to be created
  where the host does not allow writing.
\<close>

fun is_file :: "fentry option \<Rightarrow> bool" where
  "is_file (Some (File bs)) = True"
| "is_file _ = False"

definition ancestors :: "path \<Rightarrow> path list" where
  "ancestors p = map (\<lambda>k. take k p) [1..<Suc (length p)]"

definition mkdir_parents :: "host \<Rightarrow> path \<Rightarrow> (world, unit) prog" where
  "mkdir_parents h p = (\<lambda>w.
     if \<exists>q \<in> set (ancestors p). is_file (entry w q)
       then (Inl (OSError ''File exists''), w)
     else if \<exists>q \<in> set (ancestors p). entry w q = None \<and> \<not> writable h q
       then (Inl (OSError ''Permission denied''), w)
     else (Inr (), w\<lparr>files := (\<lambda>q. if q \<in> set (ancestors p) \<and> files w q = None
                                   then Some Dir else files w q)\<rparr>))"

text \<open>\<open>p.write_bytes(bs)\<close>\<close>

definition write_bytes :: "host \<Rightarrow> path \<Rightarrow> bytes \<Rightarrow> (world, unit) prog" where
  "write_bytes h p bs = (\<lambda>w.
     if entry w p = Some Dir then (Inl (OSError ''Is a directory''), w)
     else if entry w (parent_dir p) \<noteq> Some Dir then (Inl (OSError ''No such file or directory''), w)
     else if \<not> writable h p then (Inl (OSError ''Permission denied''), w)
     else (Inr (), w\<lparr>files := (files w)(p := Some (File bs))\<rparr>))"

text \<open>
  \<open>requests.post(url, json=body, timeout=...)\<close>: the request is recorded; no answer
  (connection refused, timeout) raises. \<open>resp.raise_for_status()\<close> raises on a 4xx or
  5xx status, \<open>resp.json()\<close> on a body that is not JSON.
\<close>

definition requests_post :: "host \<Rightarrow> string \<Rightarrow> json \<Rightarrow> (world, nat \<times> json option) prog" where
  "requests_post h url body = (\<lambda>w.
     let w' = w\<lparr>posted := posted w @ [(url, body)]\<rparr>
     in case http h url body of
          NoReply msg \<Rightarrow> (Inl (RequestError msg), w')
        | Reply status content \<Rightarrow> (Inr (status, content), w'))"

definition raise_for_status :: "nat \<times> json option \<Rightarrow> (world, unit) prog" where
  "raise_for_status resp =
     (if 400 \<le> fst resp \<and> fst resp < 600 then raise (HTTPError ''bad status'') else ret ())"

definition resp_json :: "nat \<times> json option \<Rightarrow> (world, json) prog" where
  "resp_json resp =
     (case snd resp of None \<Rightarrow> raise (JSONDecodeError ''Expecting value'') | Some data \<Rightarrow> ret data)"

subsection \<open>More of the host API\<close>

text \<open>
  \<open>hou.node(path)\<close> for an absolute path: the root has handle 0, and the path is
  followed component by component.
\<close>

fun split_slash :: "string \<Rightarrow> string \<Rightarrow> string list" where
  "split_slash cur [] = (if cur = [] then [] else [cur])"
| "split_slash cur (c # cs) =
     (if c = CHR ''/'' then (if cur = [] then split_slash [] cs else cur # split_slash [] cs)
      else split_slash (cur @ [c]) cs)"

fun descend :: "world \<Rightarrow> nat \<Rightarrow> string list \<Rightarrow> nat option" where
  "descend w n [] = (if get_node w n = None then None else Some n)"
| "descend w n (c # cs) = (case child w n c of None \<Rightarrow> None | Some m \<Rightarrow> descend w m cs)"

definition lookup_path :: "world \<Rightarrow> string \<Rightarrow> nat option" where
  "lookup_path w p = (case p of [] \<Rightarrow> None
     | c # cs \<Rightarrow> if c = CHR ''/'' then descend w 0 (split_slash [] cs) else None)"

definition hou_node :: "string \<Rightarrow> (world, nat option) prog" where
  "hou_node p = (\<lambda>w. (Inr (lookup_path w p), w))"

text \<open>\<open>node.path()\<close>: the names from the root down, each after a slash.\<close>

fun path_up :: "nat \<Rightarrow> world \<Rightarrow> nat \<Rightarrow> string" where
  "path_up 0 w n = []"
| "path_up (Suc k) w n =
     (case get_node w n of
        None \<Rightarrow> []
      | Some nd \<Rightarrow> (case nparent nd of None \<Rightarrow> [] | Some p \<Rightarrow> path_up k w p @ ''/'' @ nname nd))"

definition node_path :: "nat \<Rightarrow> (world, string) prog" where
  "node_path n = bnd (node_of n) (\<lambda>_ w. (Inr (path_up (length (nodes w)) w n), w))"

text \<open>\<open>node.children()\<close>: the live nodes whose parent is \<open>n\<close>.\<close>

definition children_of :: "world \<Rightarrow> nat \<Rightarrow> nat list" where
  "children_of w n = filter (\<lambda>i. case nodes w ! i of None \<Rightarrow> False | Some nd \<Rightarrow> nparent nd = Some n)
                       [0..<length (nodes w)]"

text \<open>\<open>node.destroy()\<close>: the node is removed and every input wired to it is disconnected.\<close>

definition unwire :: "nat \<Rightarrow> hnode \<Rightarrow> hnode" where
  "unwire c nd = nd\<lparr>ninputs := map (\<lambda>i. if i = Some c then None else i) (ninputs nd)\<rparr>"

definition destroy :: "nat \<Rightarrow> (world, unit) prog" where
  "destroy c = bnd (node_of c) (\<lambda>_ w.
     (Inr (), w\<lparr>nodes := map (map_option (unwire c)) ((nodes w)[c := None])\<rparr>))"

text \<open>\<open>hou.sopNodeTypeCategory().nodeType(name)\<close> and its siblings, used as a truth value.\<close>

definition node_type_exists :: "host \<Rightarrow> string \<Rightarrow> bool" where
  "node_type_exists h name = (type_parms h name \<noteq> None)"

text \<open>
  \<open>rop.render()\<close>, with the output path that was set on the node just before: the
  renderer fails, or writes the picture (making its directories), or writes nothing.
\<close>

definition rop_render :: "host \<Rightarrow> nat \<Rightarrow> path \<Rightarrow> (world, unit) prog" where
  "rop_render h rop out = bnd (node_of rop) (\<lambda>_.
     case rendering h out of
       RenderFails msg \<Rightarrow> raise (OperationFailed msg)
     | RenderWritesNothing \<Rightarrow> ret ()
     | RenderWrites bs \<Rightarrow> (\<lambda>w. (Inr (), w\<lparr>files := (\<lambda>q. if q = out then Some (File bs)
          else if q \<in> set (ancestors (parent_dir out)) \<and> files w q = None then Some Dir
          else files w q)\<rparr>)))"

text \<open>\<open>Path(s)\<close> and \<open>p / name\<close>\<close>

definition Path :: "string \<Rightarrow> path" where
  "Path s = (case s of [] \<Rightarrow> []
     | c # cs \<Rightarrow> if c = CHR ''/'' then ''/'' # split_slash [] cs else split_slash [] s)"

text \<open>\<open>str(n)\<close> for a natural number\<close>

function str_nat :: "nat \<Rightarrow> string" where
  "str_nat n = (if n < 10 then [char_of (48 + n)] else str_nat (n div 10) @ [char_of (48 + n mod 10)])"
  by pat_completeness auto
termination
  by (relation "measure id") auto

declare str_nat.simps [simp del]

text \<open>
  The assignment \<open>target.parm(p).set(source.parm(p))\<close>: \<open>set\<close> is looked up on the
  target's parameter first, then the source's parameter is read; a missing source
  parameter is \<open>None\<close>, which \<open>set\<close> refuses.
\<close>

definition parm_copy :: "host \<Rightarrow> nat \<Rightarrow> nat \<Rightarrow> string \<Rightarrow> (world, unit) prog" where
  "parm_copy h target source p = bnd (parm h target p) (\<lambda>found.
     if \<not> found then raise (AttributeError ''NoneType object has no attribute set'')
     else bnd (parm h source p) (\<lambda>there.
       if there then upd_node target (\<lambda>nd. nd\<lparr>nparms := (p, PParm source p) # nparms nd\<rparr>)
       else raise (TypeError ''Invalid parameter value'')))"

text \<open>\<open>if node.parm(name): node.parm(name).set(v)\<close>\<close>

definition parm_set_if_present :: "host \<Rightarrow> nat \<Rightarrow> string \<Rightarrow> pval \<Rightarrow> (world, unit) prog" where
  "parm_set_if_present h n name v = bnd (parm h n name) (\<lambda>found.
     if found then parm_set h n name v else ret ())"

text \<open>
  The loop that clears the default file node of a container:
  \<^verbatim>\<open>
  for c in geo.children():
      try:
          if c.type().name() == "file":
              c.destroy()
      except Exception:
          pass
  \<close>
\<close>

definition clear_file_nodes :: "nat \<Rightarrow> (world, unit) prog" where
  "clear_file_nodes geo = bnd (node_of geo) (\<lambda>_ w.
     block (map (\<lambda>c. try_except
                        (bnd (type_name c) (\<lambda>t. if t = ''file'' then destroy c else ret ()))
                        (\<lambda>exc. ret ()))
                (children_of w geo)) w)"

subsection \<open>Python values decoded from JSON\<close>

text \<open>\<open>bool(x)\<close>\<close>

fun truthy :: "json \<Rightarrow> bool" where
  "truthy JNull = False"
| "truthy (JBool b) = b"
| "truthy (JInt i) = (i \<noteq> 0)"
| "truthy (JNum r) = (r \<noteq> 0)"
| "truthy (JStr s) = (s \<noteq> [])"
| "truthy (JArr xs) = (xs \<noteq> [])"
| "truthy (JObj kvs) = (kvs \<noteq> [])"

text \<open>\<open>data.get(key)\<close>: only a dict has \<open>get\<close>. The keys of a decoded object are distinct.\<close>

fun dict_get :: "json \<Rightarrow> string \<Rightarrow> (world, json) prog" where
  "dict_get (JObj kvs) key = ret (case map_of kvs key of None \<Rightarrow> JNull | Some v \<Rightarrow> v)"
| "dict_get _ key = raise (AttributeError ''object has no attribute get'')"

text \<open>\<open>x[0]\<close> on a value that is truthy\<close>

fun subscript0 :: "json \<Rightarrow> (world, json) prog" where
  "subscript0 (JArr (x # xs)) = ret x"
| "subscript0 (JArr []) = raise (IndexError ''list index out of range'')"
| "subscript0 (JStr (c # cs)) = ret (JStr [c])"
| "subscript0 (JStr []) = raise (IndexError ''string index out of range'')"
| "subscript0 (JObj kvs) = raise (KeyError ''0'')"
| "subscript0 _ = raise (TypeError ''object is not subscriptable'')"

text \<open>\<open>base64.b64decode(x)\<close>: a string is decoded by the library, anything else is refused.\<close>

fun b64decode_value :: "host \<Rightarrow> json \<Rightarrow> (world, bytes) prog" where
  "b64decode_value h (JStr s) =
     (case b64decode h s of None \<Rightarrow> raise (BinasciiError ''Incorrect padding'') | Some bs \<Rightarrow> ret bs)"
| "b64decode_value h _ = raise (TypeError ''argument should be a bytes-like object or ASCII string'')"

text \<open>\<open>s.rstrip("/")\<close>\<close>

definition rstrip_slash :: "string \<Rightarrow> string" where
  "rstrip_slash s = rev (dropWhile (\<lambda>c. c = CHR ''/'') (rev s))"

subsection \<open>\<open>_call_stable_diffusion\<close> and \<open>call_sd_txt2img\<close>\<close>

text \<open>
  \<^verbatim>\<open>
  def _call_stable_diffusion(init_image, prompt, output_image, api_url) -> bool:
      if not api_url:
          print("[Interstellar] No Stable Diffusion API URL provided; skipping.")
          return False
      try:
          import requests
      except Exception:
          print("[Interstellar] 'requests' not available in this Houdini Python; skipping SD call.")
          return False
      payload = {"prompt": prompt, "steps": 20, "cfg_scale": 7.0,
                 "sampler_name": "Euler a", "width": 1024, "height": 1024}
      files = None
      endpoint = "/sdapi/v1/txt2img"
      if init_image and init_image.exists():
          endpoint = "/sdapi/v1/img2img"
          import base64
          with init_image.open("rb") as f:
              init_b64 = base64.b64encode(f.read()).decode("utf-8")
          payload.update({"init_images": [init_b64], "denoising_strength": 0.6})
      try:
          resp = requests.post(api_url.rstrip("/") + endpoint, json=payload, timeout=120)
          resp.raise_for_status()
          data = resp.json()
          images = data.get("images") or []
          if not images:
              print("[Interstellar] SD returned no images.")
              return False
          import base64
          img_b64 = images[0]
          png_bytes = base64.b64decode(img_b64)
          output_image.parent.mkdir(parents=True, exist_ok=True)
          output_image.write_bytes(png_bytes)
          return True
      except Exception as exc:
          print(f"[Interstellar] Stable Diffusion request failed: {exc}")
          return False
  \<close>
  A \<open>Path\<close> object is always truthy, so \<open>init_image and ...\<close> tests for \<open>None\<close> only.
\<close>

definition base_payload :: "string \<Rightarrow> (string \<times> json) list" where
  "base_payload prompt =
     [(''prompt'', JStr prompt), (''steps'', JInt 20), (''cfg_scale'', JNum 7),
      (''sampler_name'', JStr ''Euler a''), (''width'', JInt 1024), (''height'', JInt 1024)]"

text \<open>The part of the function before the guarded block: endpoint and payload.\<close>

definition sd_request :: "host \<Rightarrow> path option \<Rightarrow> string \<Rightarrow> (world, string \<times> json) prog" where
  "sd_request h init_image prompt =
     (case init_image of
        None \<Rightarrow> ret (''/sdapi/v1/txt2img'', JObj (base_payload prompt))
      | Some p \<Rightarrow> bnd (exists_path p) (\<lambda>ex.
          if ex then
            bnd (read_bytes h p) (\<lambda>bs.
              ret (''/sdapi/v1/img2img'',
                   JObj (base_payload prompt @
                     [(''init_images'', JArr [JStr (b64encode h bs)]),
                      (''denoising_strength'', JNum (6 / 10))])))
          else ret (''/sdapi/v1/txt2img'', JObj (base_payload prompt))))"

text \<open>The body of the guarded block.\<close>

definition sd_round_trip :: "host \<Rightarrow> string \<Rightarrow> json \<Rightarrow> path \<Rightarrow> (world, bool) prog" where
  "sd_round_trip h url payload output_image =
     bnd (requests_post h url payload) (\<lambda>resp.
     thn (raise_for_status resp) (
     bnd (resp_json resp) (\<lambda>data.
     bnd (dict_get data ''images'') (\<lambda>got.
       let images = (if truthy got then got else JArr []) in
       if \<not> truthy images then thn (print ''[Interstellar] SD returned no images.'') (ret False)
       else
         bnd (subscript0 images) (\<lambda>img_b64.
         bnd (b64decode_value h img_b64) (\<lambda>png_bytes.
         thn (mkdir_parents h (parent_dir output_image)) (
         thn (write_bytes h output_image png_bytes) (ret True))))))))"

definition call_stable_diffusion ::
  "host \<Rightarrow> path option \<Rightarrow> string \<Rightarrow> path \<Rightarrow> string option \<Rightarrow> (world, bool) prog" where
  "call_stable_diffusion h init_image prompt output_image api_url =
     (case api_url of
        None \<Rightarrow> thn (print ''[Interstellar] No Stable Diffusion API URL provided; skipping.'') (ret False)
      | Some url \<Rightarrow>
          if url = [] then
            thn (print ''[Interstellar] No Stable Diffusion API URL provided; skipping.'') (ret False)
          else if \<not> requests_importable h then
            thn (print ''[Interstellar] 'requests' not available in this Houdini Python; skipping SD call.'')
                (ret False)
          else
            bnd (sd_request h init_image prompt) (\<lambda>(endpoint, payload).
            try_except
              (sd_round_trip h (rstrip_slash url @ endpoint) payload output_image)
              (\<lambda>exc. thn (print (''[Interstellar] Stable Diffusion request failed: '' @ exn_str exc))
                          (ret False))))"

text \<open>
  \<^verbatim>\<open>
  def call_sd_txt2img(prompt, out_path, api_url="http://127.0.0.1:7860") -> bool:
      requests = _safe_requests()
      if requests is None:
          print("[Interstellar] 'requests' not available; skipping SD texture.")
          return False
      payload = {...same six fields...}
      try:
          resp = requests.post(api_url.rstrip("/") + "/sdapi/v1/txt2img", json=payload, timeout=180)
          resp.raise_for_status()
          data = resp.json()
          images = data.get("images") or []
          if not images:
              print("[Interstellar] SD returned no images; skipping.")
              return False
          import base64
          img_b64 = images[0]
          out_path.parent.mkdir(parents=True, exist_ok=True)
          out_path.write_bytes(base64.b64decode(img_b64))
          print(f"[Interstellar] Wrote AI texture: {out_path}")
          return True
      except Exception as exc:
          print(f"[Interstellar] SD txt2img failed: {exc}")
          return False
  \<close>
  Here the directory is made before the image is decoded.
\<close>

definition call_sd_txt2img :: "host \<Rightarrow> string \<Rightarrow> path \<Rightarrow> string \<Rightarrow> (world, bool) prog" where
  "call_sd_txt2img h prompt out_path api_url =
     (if \<not> requests_importable h then
        thn (print ''[Interstellar] 'requests' not available; skipping SD texture.'') (ret False)
      else
        try_except
          (bnd (requests_post h (rstrip_slash api_url @ ''/sdapi/v1/txt2img'') (JObj (base_payload prompt))) (\<lambda>resp.
           thn (raise_for_status resp) (
           bnd (resp_json resp) (\<lambda>data.
           bnd (dict_get data ''images'') (\<lambda>got.
             let images = (if truthy got then got else JArr []) in
             if \<not> truthy images then
               thn (print ''[Interstellar] SD returned no images; skipping.'') (ret False)
             else
               bnd (subscript0 images) (\<lambda>img_b64.
               thn (mkdir_parents h (parent_dir out_path)) (
               bnd (b64decode_value h img_b64) (\<lambda>png_bytes.
               thn (write_bytes h out_path png_bytes) (
               thn (print (''[Interstellar] Wrote AI texture: '' @ path_str out_path)) (ret True))))))))))
          (\<lambda>exc. thn (print (''[Interstellar] SD txt2img failed: '' @ exn_str exc)) (ret False)))"

subsection \<open>Building the scene: \<open>setup_houdini_ai.py\<close>\<close>

text \<open>
  \<open>_ensure_houdini\<close> raises \<open>RuntimeError\<close> when \<open>import hou\<close> fails;
  \<open>_check_versions\<close> only prints warnings, and guards the version query.
\<close>

definition ensure_houdini :: "host \<Rightarrow> (world, unit) prog" where
  "ensure_houdini h =
     (if hou_importable h then ret ()
      else raise (RuntimeError ''This script must be run inside Houdini (hou module not found).''))"

definition check_versions :: "host \<Rightarrow> (world, unit) prog" where
  "check_versions h =
     thn (if \<not> (fst (python_version h) = 3 \<and> snd (python_version h) = 9)
          then print (''[Interstellar] Warning: Python '' @ str_nat (fst (python_version h)) @ ''.'' @
                      str_nat (snd (python_version h)) @ '' detected; recommended 3.9'')
          else ret ())
         (try_except
            (case app_version h of
               None \<Rightarrow> raise (OperationFailed ''applicationVersion'')
             | Some (major, version_string) \<Rightarrow>
                 if major < 20
                 then print (''[Interstellar] Warning: Houdini '' @ version_string @
                             '' detected; recommended 20+'')
                 else ret ())
            (\<lambda>exc. ret ()))"

text \<open>The constants of \<open>_create_spaceship_blockout\<close>.\<close>

definition hull_length :: rat where "hull_length = 5000"
definition hull_radius :: rat where "hull_radius = 80"
definition tail_z :: rat where "tail_z = - hull_length * (5 / 10)"
definition engine_offset :: rat where "engine_offset = 140"
definition nozzle_length :: rat where "nozzle_length = 150"
definition nozzle_radius :: rat where "nozzle_radius = 40"
definition nose_z :: rat where "nose_z = hull_length * (5 / 10)"

definition tube_parms :: "string list" where
  "tube_parms = [''type'', ''orient'', ''height'', ''rad1'', ''rad2'', ''cap'']"

record ship_nodes =
  sn_obj :: nat
  sn_geo :: nat
  sn_mat_sop :: nat
  sn_uv_out :: nat
  sn_hull :: nat
  sn_engines :: "nat \<times> nat"
  sn_plasma :: "nat \<times> nat"
  sn_bussard :: "nat \<times> nat"

text \<open>
  \<open>_create_spaceship_blockout(prompt_tweaks)\<close>, statement by statement: the hull
  tubes, the engine nozzles and plasma spheres, the scoop, the merge of the nine
  parts, the reduce and UV nodes, the optional tweaks, and the material node. It
  raises \<open>RuntimeError("/obj not found")\<close> when \<open>hou.node("/obj")\<close> is \<open>None\<close>.
\<close>

definition create_spaceship_blockout :: "host \<Rightarrow> string option \<Rightarrow> (world, ship_nodes) prog" where
  "create_spaceship_blockout h prompt_tweaks =
     bnd (hou_node ''/obj'') (\<lambda>found.
       case found of
         None \<Rightarrow> raise (RuntimeError ''/obj not found'')
       | Some obj \<Rightarrow>
     bnd (get_or_create h obj ''geo'' ''interstellar_ship'') (\<lambda>geo.
     thn (clear_file_nodes geo) (
     bnd (get_or_create h geo ''tube'' ''hull_core'') (\<lambda>core.
     thn (block [parm_set h core ''type'' (PInt 1),
                 parm_set h core ''orient'' (PInt 2),
                 parm_set h core ''height'' (PNum hull_length),
                 parm_set h core ''rad1'' (PNum hull_radius),
                 parm_set h core ''rad2'' (PNum hull_radius),
                 parm_set h core ''cap'' (PBool True)]) (
     bnd (get_or_create h geo ''tube'' ''hull_shield_1'') (\<lambda>shield1.
     thn (block (map (parm_copy h shield1 core) tube_parms @
                [parm_set h shield1 ''rad1'' (PNum (hull_radius * (105 / 100))),
                 parm_set h shield1 ''rad2'' (PNum (hull_radius * (105 / 100)))])) (
     bnd (get_or_create h geo ''tube'' ''hull_shield_2'') (\<lambda>shield2.
     thn (block (map (parm_copy h shield2 core) tube_parms @
                [parm_set h shield2 ''rad1'' (PNum (hull_radius * (11 / 10))),
                 parm_set h shield2 ''rad2'' (PNum (hull_radius * (11 / 10)))])) (
     bnd (get_or_create h geo ''cone'' ''engine_nozzle_L'') (\<lambda>noz_l.
     thn (block [parm_set h noz_l ''type'' (PInt 1),
                 parm_set h noz_l ''height'' (PNum nozzle_length),
                 parm_set h noz_l ''rad'' (PNum nozzle_radius),
                 parm_set h noz_l ''t'' (PTuple [engine_offset, 0, tail_z + nozzle_length * (5 / 10)]),
                 parm_set h noz_l ''r'' (PTuple [90, 0, 0])]) (
     bnd (get_or_create h geo ''cone'' ''engine_nozzle_R'') (\<lambda>noz_r.
     thn (block [parm_set h noz_r ''type'' (PInt 1),
                 parm_set h noz_r ''height'' (PNum nozzle_length),
                 parm_set h noz_r ''rad'' (PNum nozzle_radius),
                 parm_set h noz_r ''t'' (PTuple [- engine_offset, 0, tail_z + nozzle_length * (5 / 10)]),
                 parm_set h noz_r ''r'' (PTuple [90, 0, 0])]) (
     bnd (get_or_create h geo ''sphere'' ''engine_plasma_L'') (\<lambda>plasma_l.
     thn (block [parm_set h plasma_l ''type'' (PInt 2),
                 parm_set h plasma_l ''radx'' (PNum (nozzle_radius * (6 / 10))),
                 parm_set h plasma_l ''rady'' (PNum (nozzle_radius * (6 / 10))),
                 parm_set h plasma_l ''radz'' (PNum (nozzle_radius * (6 / 10))),
                 parm_set h plasma_l ''t'' (PTuple [engine_offset, 0, tail_z + nozzle_length])]) (
     bnd (get_or_create h geo ''sphere'' ''engine_plasma_R'') (\<lambda>plasma_r.
     thn (block [parm_set h plasma_r ''type'' (PInt 2),
                 parm_set h plasma_r ''radx'' (PNum (nozzle_radius * (6 / 10))),
                 parm_set h plasma_r ''rady'' (PNum (nozzle_radius * (6 / 10))),
                 parm_set h plasma_r ''radz'' (PNum (nozzle_radius * (6 / 10))),
                 parm_set h plasma_r ''t'' (PTuple [- engine_offset, 0, tail_z + nozzle_length])]) (
     bnd (get_or_create h geo ''torus'' ''bussard_ring'') (\<lambda>scoop_ring.
     thn (block [parm_set h scoop_ring ''type'' (PInt 1),
                 parm_set h scoop_ring ''rad1'' (PNum (hull_radius * (16 / 10))),
                 parm_set h scoop_ring ''rad2'' (PNum (hull_radius * (2 / 10))),
                 parm_set h scoop_ring ''t'' (PTuple [0, 0, nose_z - 50])]) (
     bnd (get_or_create h geo ''cone'' ''bussard_cone'') (\<lambda>scoop_cone.
     thn (block [parm_set h scoop_cone ''type'' (PInt 1),
                 parm_set h scoop_cone ''height'' (PNum 400),
                 parm_set h scoop_cone ''rad'' (PNum (hull_radius * (12 / 10))),
                 parm_set h scoop_cone ''t'' (PTuple [0, 0, nose_z - 200]),
                 parm_set h scoop_cone ''r'' (PTuple [- 90, 0, 0])]) (
     bnd (get_or_create h geo ''merge'' ''ship_merge'') (\<lambda>merge.
     thn (block [setInput merge 0 core, setInput merge 1 shield1, setInput merge 2 shield2,
                 setInput merge 3 noz_l, setInput merge 4 noz_r, setInput merge 5 plasma_l,
                 setInput merge 6 plasma_r, setInput merge 7 scoop_ring,
                 setInput merge 8 scoop_cone]) (
     bnd (if node_type_exists h ''polyreduce::2.0''
          then get_or_create h geo ''polyreduce::2.0'' ''opt_reduce''
          else get_or_create h geo ''polyreduce'' ''opt_reduce'') (\<lambda>polyreduce.
     thn (setInput polyreduce 0 merge) (
     thn (parm_set h polyreduce ''percentage'' (PInt 100)) (
     bnd (if node_type_exists h ''uvflatten::2.0''
          then get_or_create h geo ''uvflatten::2.0'' ''uvs''
          else get_or_create h geo ''uvunwrap'' ''uvs'') (\<lambda>uvflatten.
     thn (setInput uvflatten 0 polyreduce) (
     bnd (case prompt_tweaks of
            None \<Rightarrow> ret uvflatten
          | Some tweaks \<Rightarrow> if tweaks \<noteq> [] then apply_prompt_tweaks h geo uvflatten tweaks
                           else ret uvflatten) (\<lambda>output.
     bnd (get_or_create h geo ''material'' ''assign_material'') (\<lambda>mat_sop.
     thn (setInput mat_sop 0 output) (
     thn (setDisplayFlag geo True) (
     thn (setDisplayFlag mat_sop True) (
     thn (setRenderFlag mat_sop True) (
     ret \<lparr>sn_obj = obj, sn_geo = geo, sn_mat_sop = mat_sop, sn_uv_out = output,
          sn_hull = core, sn_engines = (noz_l, noz_r), sn_plasma = (plasma_l, plasma_r),
          sn_bussard = (scoop_ring, scoop_cone)\<rparr>
     ))))))))))))))))))))))))))))))))))"

record cockpit_nodes =
  ck_geo :: nat
  ck_camera :: nat
  ck_out :: nat

text \<open>\<open>_add_cockpit(parent_obj, style_prompt)\<close>; the style prompt is not used by the body.\<close>

definition add_cockpit :: "host \<Rightarrow> nat \<Rightarrow> string option \<Rightarrow> (world, cockpit_nodes) prog" where
  "add_cockpit h parent_obj style_prompt =
     bnd (get_or_create h parent_obj ''geo'' ''interstellar_cockpit'') (\<lambda>geo.
     thn (clear_file_nodes geo) (
     bnd (get_or_create h geo ''grid'' ''dashboard_grid'') (\<lambda>grid.
     thn (block [parm_set h grid ''sizex'' (PNum 4),
                 parm_set h grid ''sizey'' (PNum 2),
                 parm_set h grid ''t'' (PTuple [0, 12 / 10, 0]),
                 parm_set h grid ''r'' (PTuple [- 10, 0, 0])]) (
     bnd (get_or_create h geo ''scatter'' ''holo_scatter'') (\<lambda>scatter.
     thn (block [setInput scatter 0 grid,
                 parm_set h scatter ''npts'' (PInt 20),
                 parm_set h scatter ''relax'' (PInt 1)]) (
     bnd (get_or_create h geo ''sphere'' ''holo_orb'') (\<lambda>sphere.
     thn (block [parm_set h sphere ''type'' (PInt 2),
                 parm_set h sphere ''radx'' (PNum (7 / 100)),
                 parm_set h sphere ''rady'' (PNum (7 / 100)),
                 parm_set h sphere ''radz'' (PNum (7 / 100))]) (
     bnd (get_or_create h geo ''copytopoints'' ''holo_copy'') (\<lambda>ctp.
     thn (block [setInput ctp 0 sphere, setInput ctp 1 scatter]) (
     bnd (get_or_create h geo ''merge'' ''cockpit_merge'') (\<lambda>merge.
     thn (block [setInput merge 0 grid, setInput merge 1 ctp]) (
     bnd (if node_type_exists h ''uvflatten::2.0''
          then get_or_create h geo ''uvflatten::2.0'' ''cockpit_uvs''
          else get_or_create h geo ''uvunwrap'' ''cockpit_uvs'') (\<lambda>uvflatten.
     thn (setInput uvflatten 0 merge) (
     bnd (get_or_create h parent_obj ''cam'' ''cockpit_cam'') (\<lambda>cam.
     thn (block [parm_set h cam ''t'' (PTuple [0, 15 / 10, 25 / 10]),
                 parm_set h cam ''r'' (PTuple [- 8, 0, 0])]) (
     bnd (get_or_create h geo ''attribcreate'' ''holo_emission_hint'') (\<lambda>attrib.
     thn (block [setInput attrib 0 uvflatten,
                 parm_set h attrib ''name'' (PStr ''emit''),
                 parm_set h attrib ''class'' (PInt 1),
                 parm_set h attrib ''type'' (PInt 0),
                 parm_set h attrib ''value1'' (PNum 5),
                 setDisplayFlag attrib True,
                 setRenderFlag attrib True]) (
     ret \<lparr>ck_geo = geo, ck_camera = cam, ck_out = attrib\<rparr>))))))))))))))))))"

text \<open>
  \<open>_create_camera_and_lights()\<close>: \<open>hou.node("/obj")\<close> is not checked here, so a
  missing \<open>/obj\<close> surfaces as the \<open>AttributeError\<close> of \<open>None.node\<close>.
\<close>

definition create_camera_and_lights :: "host \<Rightarrow> (world, nat) prog" where
  "create_camera_and_lights h =
     bnd (hou_node ''/obj'') (\<lambda>found.
       case found of
         None \<Rightarrow> raise (AttributeError ''NoneType object has no attribute node'')
       | Some obj \<Rightarrow>
     bnd (get_or_create h obj ''cam'' ''interstellar_cam'') (\<lambda>cam.
     thn (block [parm_set h cam ''t'' (PTuple [0, 5, 50]),
                 parm_set h cam ''r'' (PTuple [- 10, 0, 0])]) (
     bnd (get_or_create h obj ''hlight'' ''key_light'') (\<lambda>light.
     thn (parm_set h light ''t'' (PTuple [20, 30, 40])) (
     bnd (get_or_create h obj ''hlight'' ''fill_light'') (\<lambda>fill.
     thn (parm_set h fill ''t'' (PTuple [- 25, - 10, 20])) (
     ret cam)))))))"

text \<open>\<open>topnet.layoutChildren()\<close>: positions on the network pane are not modelled.\<close>

definition layoutChildren :: "nat \<Rightarrow> (world, unit) prog" where
  "layoutChildren n = bnd (node_of n) (\<lambda>_. ret ())"

text \<open>\<open>_try_stablehoudini_pdg(cockpit_geo_path)\<close>: the whole body is one guarded block.\<close>

definition try_stablehoudini_pdg :: "host \<Rightarrow> string \<Rightarrow> (world, unit) prog" where
  "try_stablehoudini_pdg h cockpit_geo_path =
     try_except
       (bnd (hou_node ''/obj'') (\<lambda>found.
          case found of
            None \<Rightarrow> raise (AttributeError ''NoneType object has no attribute node'')
          | Some obj \<Rightarrow>
        bnd (node_child obj ''stablehoudini_pdg'') (\<lambda>existing.
        bnd (case existing of
               None \<Rightarrow> createNode h obj ''topnet'' ''stablehoudini_pdg''
             | Some t \<Rightarrow> ret t) (\<lambda>topnet.
        bnd (if node_type_exists h ''sd_img2img''
             then bnd (createNode h topnet ''sd_img2img'' ''sd_img2img_cockpit'') (\<lambda>n. ret (Some n))
             else if node_type_exists h ''top_stable_diffusion''
             then bnd (createNode h topnet ''top_stable_diffusion'' ''sd_img2img_cockpit'')
                      (\<lambda>n. ret (Some n))
             else ret None) (\<lambda>sd_top.
          case sd_top of
            None \<Rightarrow> print ''[Interstellar] StableHoudini TOP node not found; skipping PDG setup.''
          | Some sd \<Rightarrow>
              thn (parm_set_if_present h sd ''api_url'' (PStr ''http://127.0.0.1:7860'')) (
              thn (parm_set_if_present h sd ''prompt''
                     (PStr ''retro-futuristic cockpit with neon holograms, high-fidelity panels'')) (
              bnd (node_child topnet ''localscheduler'') (\<lambda>sched.
              thn (case sched of
                     None \<Rightarrow> try_except
                               (bnd (createNode h topnet ''localscheduler'' ''localscheduler'')
                                    (\<lambda>localsched. setInput sd 0 localsched))
                               (\<lambda>exc. ret ())
                   | Some _ \<Rightarrow> ret ()) (
              layoutChildren topnet)))))))))
       (\<lambda>exc. print (''[Interstellar] StableHoudini PDG setup skipped: '' @ exn_str exc))"

text \<open>
  \<open>_render_viewport_snapshot(output_path, camera_path, objects_path)\<close>: only the
  \<open>render\<close> call and the test of the output file are guarded; that block is
  \<open>guarded_render\<close>:
  \<^verbatim>\<open>
  try:
      rop.render()
      return output_path.exists()
  except Exception as exc:
      print(f"[Interstellar] Snapshot render failed: {exc}")
      return False
  \<close>
\<close>

definition guarded_render :: "host \<Rightarrow> nat \<Rightarrow> path \<Rightarrow> (world, bool) prog" where
  "guarded_render h rop output_path =
     try_except
       (thn (rop_render h rop output_path) (exists_path output_path))
       (\<lambda>exc. thn (print (''[Interstellar] Snapshot render failed: '' @ exn_str exc)) (ret False))"

definition render_viewport_snapshot :: "host \<Rightarrow> path \<Rightarrow> string \<Rightarrow> string \<Rightarrow> (world, bool) prog" where
  "render_viewport_snapshot h output_path camera_path objects_path =
     bnd (hou_node ''/out'') (\<lambda>found.
       case found of
         None \<Rightarrow> ret False
       | Some out \<Rightarrow>
           (case (if node_type_exists h ''opengl'' then Some ''opengl''
                  else if node_type_exists h ''ogl'' then Some ''ogl'' else None) of
              None \<Rightarrow> thn (print ''[Interstellar] No OpenGL ROP available; skipping snapshot render.'')
                          (ret False)
            | Some rop_type \<Rightarrow>
                bnd (get_or_create h out rop_type ''interstellar_snapshot'') (\<lambda>rop.
                thn (block [parm_set h rop ''camera'' (PStr camera_path),
                            parm_set h rop ''vm_picture'' (PStr (path_str output_path)),
                            parm_set h rop ''trange'' (PInt 0),
                            parm_set h rop ''res1'' (PInt 1024),
                            parm_set h rop ''res2'' (PInt 1024)]) (
                guarded_render h rop output_path))))"

text \<open>\<open>_create_or_update_material(texture_path)\<close>\<close>

definition create_or_update_material :: "host \<Rightarrow> path option \<Rightarrow> (world, nat) prog" where
  "create_or_update_material h texture_path =
     bnd (hou_node ''/mat'') (\<lambda>found.
     bnd (case found of
            Some m \<Rightarrow> ret m
          | None \<Rightarrow> bnd (hou_node ''/'') (\<lambda>root.
              case root of
                None \<Rightarrow> raise (AttributeError ''NoneType object has no attribute createNode'')
              | Some r \<Rightarrow> createNode h r ''matnet'' ''mat'')) (\<lambda>matnet.
     bnd (get_or_create h matnet
            (if node_type_exists h ''principledshader::2.0'' then ''principledshader::2.0''
             else ''principledshader'') ''ship_mat'') (\<lambda>mat.
     thn (case texture_path of
            None \<Rightarrow> ret ()
          | Some tp \<Rightarrow> bnd (exists_path tp) (\<lambda>there.
              if there then
                block [parm_set_if_present h mat ''basecolor_useTexture'' (PInt 1),
                       parm_set_if_present h mat ''basecolortex_useTexture'' (PInt 1),
                       parm_set_if_present h mat ''basecolor_texture'' (PStr (path_str tp)),
                       parm_set_if_present h mat ''basecolortex_texture'' (PStr (path_str tp))]
              else ret ())) (
     ret mat))))"

text \<open>\<open>_assign_material_to_geo(material_node_path, material_sop)\<close>\<close>

definition assign_material_to_geo :: "host \<Rightarrow> string \<Rightarrow> nat option \<Rightarrow> (world, unit) prog" where
  "assign_material_to_geo h material_node_path material_sop =
     (case material_sop of
        None \<Rightarrow> ret ()
      | Some sop \<Rightarrow> bnd (parm h sop ''shop_materialpath1'') (\<lambda>found.
          if found then
            block [parm_set h sop ''num_materials'' (PInt 1),
                   parm_set h sop ''group1'' (PStr []),
                   parm_set h sop ''shop_materialpath1'' (PStr material_node_path)]
          else ret ()))"

text \<open>
  \<open>setup_interstellar_ai(prompt, prompt_tweaks, sd_api_url, cockpit_style,
  build_stablehoudini_pdg)\<close>.
\<close>

definition cockpit_prompt :: "string option \<Rightarrow> string" where
  "cockpit_prompt cockpit_style =
     (case cockpit_style of
        None \<Rightarrow> ''retro-futuristic cockpit with neon holograms''
      | Some s \<Rightarrow> if s \<noteq> [] then s else ''retro-futuristic cockpit with neon holograms'')"

definition setup_interstellar_ai ::
  "host \<Rightarrow> string \<Rightarrow> string option \<Rightarrow> string option \<Rightarrow> string option \<Rightarrow> bool \<Rightarrow> (world, unit) prog" where
  "setup_interstellar_ai h prompt prompt_tweaks sd_api_url cockpit_style build_stablehoudini_pdg =
     thn (ensure_houdini h) (
     thn (check_versions h) (
     bnd (create_spaceship_blockout h prompt_tweaks) (\<lambda>nodes.
     bnd (case cockpit_style of
            None \<Rightarrow> ret None
          | Some style \<Rightarrow>
              if style \<noteq> [] then bnd (add_cockpit h (sn_obj nodes) cockpit_style) (\<lambda>c. ret (Some c))
              else ret None) (\<lambda>cockpit.
     bnd (create_camera_and_lights h) (\<lambda>cam.
     let project_root = (if hip h \<noteq> [] then Path (hip h) else cwd h);
         ai_dir = project_root @ [''ai_tools'', ''generated''];
         snapshot_path = ai_dir @ [''ship_view.png''];
         texture_path = ai_dir @ [''ship_texture.png''];
         cockpit_snapshot_path = ai_dir @ [''cockpit_view.png''];
         cockpit_texture_path = ai_dir @ [''cockpit_texture.png'']
     in
     bnd (node_path cam) (\<lambda>cam_path.
     bnd (node_path (sn_geo nodes)) (\<lambda>geo_path.
     bnd (render_viewport_snapshot h snapshot_path cam_path geo_path) (\<lambda>snapshot_ok.
     bnd (call_stable_diffusion h (if snapshot_ok then Some snapshot_path else None) prompt
            texture_path sd_api_url) (\<lambda>sd_ok.
     thn (case cockpit of
            None \<Rightarrow> ret ()
          | Some c \<Rightarrow>
              bnd (node_path (ck_camera c)) (\<lambda>cockpit_cam_path.
              bnd (node_path (ck_geo c)) (\<lambda>cockpit_geo_path.
              bnd (render_viewport_snapshot h cockpit_snapshot_path cockpit_cam_path
                     cockpit_geo_path) (\<lambda>cockpit_snapshot_ok.
              bnd (call_stable_diffusion h
                     (if cockpit_snapshot_ok then Some cockpit_snapshot_path else None)
                     (cockpit_prompt cockpit_style) cockpit_texture_path sd_api_url) (\<lambda>cockpit_ok.
              if build_stablehoudini_pdg
              then bnd (node_path (ck_geo c)) (\<lambda>p. try_stablehoudini_pdg h p)
              else ret ()))))) (
     bnd (create_or_update_material h (if sd_ok then Some texture_path else None)) (\<lambda>mat.
     bnd (node_path mat) (\<lambda>mat_path.
     thn (assign_material_to_geo h mat_path (Some (sn_mat_sop nodes))) (
     thn (print ''[Interstellar] Setup complete.'') (
     thn (if sd_ok then print (''[Interstellar] Applied AI texture: '' @ path_str texture_path)
          else print ''[Interstellar] AI texture step skipped or failed; using default shader settings.'') (
     case cockpit of
       None \<Rightarrow> ret ()
     | Some c \<Rightarrow> bnd (exists_path cockpit_texture_path) (\<lambda>there.
         if there
         then print (''[Interstellar] Applied cockpit AI texture: '' @ path_str cockpit_texture_path)
         else print ''[Interstellar] Cockpit AI texture step skipped or failed.''))))))))))))))))"

subsection \<open>Observations on a world\<close>

definition inputs_of :: "world \<Rightarrow> nat \<Rightarrow> nat option list" where
  "inputs_of w n = (case get_node w n of None \<Rightarrow> [] | Some nd \<Rightarrow> ninputs nd)"

definition wired :: "world \<Rightarrow> nat \<Rightarrow> nat \<Rightarrow> nat option" where
  "wired w n i = input_at (inputs_of w n) i"

definition type_of :: "world \<Rightarrow> nat \<Rightarrow> string option" where
  "type_of w n = map_option ntype (get_node w n)"

text \<open>How many inputs of node \<open>n\<close> are connected to node \<open>b\<close>.\<close>

definition connections :: "world \<Rightarrow> nat \<Rightarrow> nat \<Rightarrow> nat" where
  "connections w n b = length (filter (\<lambda>x. x = Some b) (inputs_of w n))"

text \<open>
  The wiring \<open>_connect_merge\<close> leaves on a merge node whose inputs were \<open>xs\<close>, as
  one expression; the lemmas below relate the function to it.
\<close>

definition rewire :: "nat option list \<Rightarrow> nat \<Rightarrow> nat \<Rightarrow> nat option list" where
  "rewire xs a b =
     (if input_at xs 0 = None then connect (connect xs 0 a) 1 b
      else let ys = connect xs (free_slot xs 1) b
           in if input_at ys 0 \<noteq> Some a then connect ys 0 a else ys)"

text \<open>
  The image file \<open>out\<close> can be written: it is a proper file path, no ancestor of it is
  a file, missing ancestors may be created, and \<open>out\<close> itself is writable and not a
  directory.
\<close>

definition can_write_image :: "host \<Rightarrow> world \<Rightarrow> path \<Rightarrow> bool" where
  "can_write_image h w out \<longleftrightarrow>
     out \<noteq> [] \<and> out \<noteq> [''/''] \<and>
     (\<forall>q \<in> set (ancestors (parent_dir out)).
        \<not> is_file (entry w q) \<and> (entry w q = None \<longrightarrow> writable h q)) \<and>
     entry w out \<noteq> Some Dir \<and> writable h out"

text \<open>The response carries no image: the key is missing, null, or an empty list.\<close>

definition no_images :: "(string \<times> json) list \<Rightarrow> bool" where
  "no_images kvs \<longleftrightarrow>
     map_of kvs ''images'' = None \<or> map_of kvs ''images'' = Some JNull \<or>
     map_of kvs ''images'' = Some (JArr [])"

text \<open>A status that \<open>raise_for_status\<close> accepts.\<close>

definition status_ok :: "nat \<Rightarrow> bool" where
  "status_ok status \<longleftrightarrow> status < 400 \<or> 600 \<le> status"

text \<open>What an observer of a texture attempt sees: the returned value and the files on disk.\<close>

definition outcome :: "(exn + bool) \<times> world \<Rightarrow> (exn + bool) \<times> (path \<Rightarrow> fentry option)" where
  "outcome r = (fst r, files (snd r))"

text \<open>A program that leaves the component \<open>g\<close> of the world as it is, whatever it returns.\<close>

definition keeps :: "(world \<Rightarrow> 'x) \<Rightarrow> (world, 'a) prog \<Rightarrow> bool" where
  "keeps g m \<longleftrightarrow> (\<forall>w. g (snd (m w)) = g w)"

text \<open>The fixed sampling parameters of a request body.\<close>

definition fixed_sampling :: "string \<Rightarrow> (string \<times> json) list \<Rightarrow> bool" where
  "fixed_sampling prompt body \<longleftrightarrow>
     map_of body ''prompt'' = Some (JStr prompt) \<and>
     map_of body ''steps'' = Some (JInt 20) \<and>
     map_of body ''cfg_scale'' = Some (JNum 7) \<and>
     map_of body ''sampler_name'' = Some (JStr ''Euler a'') \<and>
     map_of body ''width'' = Some (JInt 1024) \<and>
     map_of body ''height'' = Some (JInt 1024)"

text \<open>An init image path is given and exists on disk.\<close>

definition has_snapshot :: "world \<Rightarrow> path option \<Rightarrow> bool" where
  "has_snapshot w init_image = (case init_image of None \<Rightarrow> False | Some p \<Rightarrow> entry w p \<noteq> None)"

text \<open>
  The body carries the snapshot file, base64-encoded, as its single init image, and the
  denoising strength 0.6; or it carries neither field.
\<close>

definition seeded_with :: "host \<Rightarrow> world \<Rightarrow> path option \<Rightarrow> (string \<times> json) list \<Rightarrow> bool" where
  "seeded_with h w init_image body \<longleftrightarrow>
     map_of body ''denoising_strength'' = Some (JNum (6 / 10)) \<and>
     (case init_image of
        None \<Rightarrow> False
      | Some p \<Rightarrow> (case entry w p of
          Some (File bs) \<Rightarrow> map_of body ''init_images'' = Some (JArr [JStr (b64encode h bs)])
        | _ \<Rightarrow> False))"

definition unseeded :: "(string \<times> json) list \<Rightarrow> bool" where
  "unseeded body \<longleftrightarrow>
     map_of body ''denoising_strength'' = None \<and> map_of body ''init_images'' = None"

text \<open>The init image, when given and present, is a file the host lets the script read.\<close>

definition snapshot_readable :: "host \<Rightarrow> world \<Rightarrow> path option \<Rightarrow> bool" where
  "snapshot_readable h w init_image =
     (case init_image of
        None \<Rightarrow> True
      | Some p \<Rightarrow> entry w p = None \<or> (is_file (entry w p) \<and> readable h p))"

text \<open>
  The rivet branch as it stands in a world: a scatter over \<open>base\<close>, a circle, a
  copy-to-points of the circle onto the scattered points, and the merge node
  \<open>merge_rivets\<close> of \<open>base\<close> with the copies. The conduit branch: a curve, a polywire
  along it, and the merge node \<open>merge_conduit\<close> of \<open>base\<close> with the wire.
\<close>

definition named :: "world \<Rightarrow> nat \<Rightarrow> string \<Rightarrow> string \<Rightarrow> nat option list \<Rightarrow> nat option" where
  "named w geo name ty ins =
     (case child w geo name of
        None \<Rightarrow> None
      | Some n \<Rightarrow> if type_of w n = Some ty \<and> inputs_of w n = ins then Some n else None)"

definition rivet_branch :: "world \<Rightarrow> nat \<Rightarrow> nat \<Rightarrow> nat option" where
  "rivet_branch w geo base =
     (case named w geo ''rivets_scatter'' ''scatter'' [Some base] of
        None \<Rightarrow> None
      | Some scatter \<Rightarrow>
     (case named w geo ''rivet_circle'' ''circle'' [] of
        None \<Rightarrow> None
      | Some circle \<Rightarrow>
     (case named w geo ''rivets_copy'' ''copytopoints'' [Some circle, Some scatter] of
        None \<Rightarrow> None
      | Some ctp \<Rightarrow> named w geo ''merge_rivets'' ''merge'' [Some base, Some ctp])))"

definition conduit_branch :: "world \<Rightarrow> nat \<Rightarrow> nat \<Rightarrow> nat option" where
  "conduit_branch w geo base =
     (case named w geo ''conduit_curve'' ''curve'' [] of
        None \<Rightarrow> None
      | Some curve \<Rightarrow>
     (case named w geo ''conduit_wire'' ''polywire'' [Some curve] of
        None \<Rightarrow> None
      | Some wire \<Rightarrow> named w geo ''merge_conduit'' ''merge'' [Some base, Some wire]))"

text \<open>The host provides a node type with (at least) the given parameters.\<close>

definition provides :: "host \<Rightarrow> string \<Rightarrow> string list \<Rightarrow> bool" where
  "provides h ty ps = (case type_parms h ty of None \<Rightarrow> False | Some qs \<Rightarrow> set ps \<subseteq> set qs)"

definition tweak_host :: "host \<Rightarrow> bool" where
  "tweak_host h \<longleftrightarrow>
     provides h ''scatter'' [''npts''] \<and> provides h ''circle'' [''type'', ''radx'', ''rady''] \<and>
     provides h ''copytopoints'' [] \<and> provides h ''merge'' [] \<and>
     provides h ''curve'' [''type'', ''coords''] \<and> provides h ''polywire'' [''radius'']"

text \<open>The container is live and has no child with one of the names the tweaks use.\<close>

definition tweak_names :: "string list" where
  "tweak_names = [''rivets_scatter'', ''rivet_circle'', ''rivets_copy'', ''merge_rivets'',
     ''conduit_curve'', ''conduit_wire'', ''merge_conduit'']"

definition untweaked :: "world \<Rightarrow> nat \<Rightarrow> bool" where
  "untweaked w geo \<longleftrightarrow> get_node w geo \<noteq> None \<and> (\<forall>name \<in> set tweak_names. child w geo name = None)"

subsection \<open>A concrete host and concrete scenes\<close>

text \<open>
  A host that provides every node type and parameter the scripts use, and a scene as a
  fresh session has it: the root with \<open>/obj\<close>, \<open>/out\<close> and \<open>/mat\<close>.
\<close>

definition std_catalogue :: "(string \<times> string list) list" where
  "std_catalogue =
    [(''geo'', []), (''cam'', [''t'', ''r'']), (''hlight'', [''t'']),
     (''tube'', [''type'', ''orient'', ''height'', ''rad1'', ''rad2'', ''cap'']),
     (''cone'', [''type'', ''height'', ''rad'', ''t'', ''r'']),
     (''sphere'', [''type'', ''radx'', ''rady'', ''radz'', ''t'']),
     (''torus'', [''type'', ''rad1'', ''rad2'', ''t'']),
     (''merge'', []),
     (''polyreduce::2.0'', [''percentage'']),
     (''uvflatten::2.0'', []),
     (''material'', [''num_materials'', ''group1'', ''shop_materialpath1'']),
     (''scatter'', [''npts'', ''relax'']),
     (''circle'', [''type'', ''radx'', ''rady'']),
     (''copytopoints'', []),
     (''curve'', [''type'', ''coords'']),
     (''polywire'', [''radius'']),
     (''grid'', [''sizex'', ''sizey'', ''t'', ''r'']),
     (''attribcreate'', [''name'', ''class'', ''type'', ''value1'']),
     (''opengl'', [''camera'', ''vm_picture'', ''trange'', ''res1'', ''res2'']),
     (''matnet'', []),
     (''principledshader::2.0'', [''basecolor_useTexture'', ''basecolor_texture'']),
     (''topnet'', [])]"

definition std_host :: host where
  "std_host = \<lparr>
     hou_importable = True,
     requests_importable = True,
     python_version = (3, 9),
     app_version = Some (20, ''20.0.547''),
     type_parms = map_of std_catalogue,
     fresh_name = (\<lambda>taken name. name @ ''1''),
     hip = ''/proj'',
     cwd = [''/'', ''proj''],
     readable = (\<lambda>p. True),
     writable = (\<lambda>p. True),
     rendering = (\<lambda>p. RenderWritesNothing),
     http = (\<lambda>url body. NoReply ''connection refused''),
     b64encode = (\<lambda>bs. bs),
     b64decode = (\<lambda>s. Some s)\<rparr>"

definition fresh_scene :: world where
  "fresh_scene = \<lparr>
     nodes = [Some (\<lparr>nname = [], ntype = ''root'', nparent = None, ninputs = [], nparms = [],
                     ndisplay = False, nrender = False\<rparr>),
              Some (new_node ''obj'' ''obj'' 0),
              Some (new_node ''out'' ''out'' 0),
              Some (new_node ''mat'' ''mat'' 0)],
     files = (\<lambda>p. if p = [''/''] \<or> p = [''/'', ''proj''] then Some Dir else None),
     printed = [],
     posted = []\<rparr>"

text \<open>
  A geometry container (handle 4) holding a base node (5), a branch node (6) and a merge
  node \<open>merge_rivets\<close> (7) already wired with the base at input 0 and the branch at
  input 1.
\<close>

definition wired_scene :: world where
  "wired_scene = fresh_scene\<lparr>nodes := nodes fresh_scene @
     [Some (new_node ''interstellar_ship'' ''geo'' 1),
      Some (new_node ''uvs'' ''uvflatten::2.0'' 4),
      Some (new_node ''rivets_copy'' ''copytopoints'' 4),
      Some ((new_node ''merge_rivets'' ''merge'' 4)\<lparr>ninputs := [Some 5, Some 6]\<rparr>)]\<rparr>"

text \<open>
  A service that answers every request with one image, a scene with a viewport
  snapshot on disk, and a host on which that snapshot cannot be read.
\<close>

definition sd_host :: host where
  "sd_host = std_host\<lparr>http := (\<lambda>url body.
      Reply 200 (Some (JObj [(''images'', JArr [JStr ''iVBORw0KGgo='']), (''info'', JStr [])])))\<rparr>"

definition empty_sd_host :: host where
  "empty_sd_host = std_host\<lparr>http := (\<lambda>url body. Reply 200 (Some (JObj [(''images'', JArr [])])))\<rparr>"

definition snapshot_path :: path where
  "snapshot_path = [''/'', ''proj'', ''ai_tools'', ''generated'', ''ship_view.png'']"

definition texture_path :: path where
  "texture_path = [''/'', ''proj'', ''ai_tools'', ''generated'', ''ship_texture.png'']"

definition snapshot_scene :: world where
  "snapshot_scene = fresh_scene\<lparr>files := (\<lambda>p.
      if p = [''/'', ''proj'', ''ai_tools''] \<or> p = [''/'', ''proj'', ''ai_tools'', ''generated'']
        then Some Dir
      else if p = snapshot_path then Some (File ''PNG'')
      else files fresh_scene p)\<rparr>"

definition locked_host :: host where
  "locked_host = sd_host\<lparr>readable := (\<lambda>p. p \<noteq> snapshot_path)\<rparr>"

text \<open>A geometry container (handle 4) holding only the UV node (5) the tweaks start from.\<close>

definition ship_scene :: world where
  "ship_scene = fresh_scene\<lparr>nodes := nodes fresh_scene @
     [Some (new_node ''interstellar_ship'' ''geo'' 1),
      Some (new_node ''uvs'' ''uvflatten::2.0'' 4)]\<rparr>"


definition offline_host :: host where
  "offline_host = std_host\<lparr>rendering := (\<lambda>p. RenderFails ''no display''),
     app_version := None\<rparr>"




section \<open>Properties\<close>

subsection \<open>Running programs\<close>

lemma bnd_apply: "bnd m f w = (case m w of (Inl e, w') \<Rightarrow> (Inl e, w') | (Inr x, w') \<Rightarrow> f x w')"
  by (simp add: bnd_def)

lemma thn_apply: "thn m k w = (case m w of (Inl e, w') \<Rightarrow> (Inl e, w') | (Inr x, w') \<Rightarrow> k w')"
  by (simp add: thn_def bnd_def)

lemma ret_apply: "ret x w = (Inr x, w)"
  by (simp add: ret_def)

lemma raise_apply: "raise e w = (Inl e, w)"
  by (simp add: raise_def)

lemma try_except_apply:
  "try_except m h w = (case m w of (Inl e, w') \<Rightarrow> h e w' | (Inr x, w') \<Rightarrow> (Inr x, w'))"
  by (simp add: try_except_def)

lemmas run = bnd_apply thn_apply ret_apply raise_apply try_except_apply

subsection \<open>Looking nodes up\<close>

lemma first_index_bounds:
  "first_index P xs i = Some j \<Longrightarrow> i \<le> j \<and> j < i + length xs \<and> P (xs ! (j - i))"
proof (induction xs arbitrary: i)
  case Nil
  then show ?case by simp
next
  case (Cons x xs)
  show ?case
  proof (cases "P x")
    case True
    with Cons.prems show ?thesis by simp
  next
    case False
    with Cons.prems have "first_index P xs (Suc i) = Some j" by simp
    from Cons.IH[OF this] show ?thesis by (auto simp: Suc_diff_le)
  qed
qed

lemma first_index_append:
  "first_index P (xs @ ys) i =
     (case first_index P xs i of Some j \<Rightarrow> Some j | None \<Rightarrow> first_index P ys (i + length xs))"
  by (induction xs arbitrary: i) (auto split: option.splits)

lemma first_index_cong: "map P xs = map P ys \<Longrightarrow> first_index P xs i = first_index P ys i"
proof (induction xs arbitrary: ys i)
  case Nil
  then show ?case by simp
next
  case (Cons x xs)
  then obtain y ys' where "ys = y # ys'" by (cases ys) auto
  with Cons show ?case by auto
qed

lemma get_node_length: "get_node w n = Some nd \<Longrightarrow> n < length (nodes w)"
  by (auto simp: get_node_def split: if_splits)

lemma get_node_update:
  "get_node (w\<lparr>nodes := (nodes w)[n := x]\<rparr>) n' =
     (if n' = n \<and> n < length (nodes w) then x else get_node w n')"
  by (auto simp: get_node_def)

lemma get_node_append:
  "get_node (w\<lparr>nodes := nodes w @ [x]\<rparr>) n =
     (if n = length (nodes w) then x else get_node w n)"
  by (auto simp: get_node_def nth_append)

lemma child_alive:
  "child w p name = Some n \<Longrightarrow>
   \<exists>nd. get_node w n = Some nd \<and> nparent nd = Some p \<and> nname nd = name"
  unfolding child_def get_node_def
  by (drule first_index_bounds) (auto simp: is_child_def split: option.splits)

lemma child_after_create:
  "child w p name = None \<Longrightarrow>
   child (w\<lparr>nodes := nodes w @ [Some (new_node name ty p)]\<rparr>) p name = Some (length (nodes w))"
  by (simp add: child_def first_index_append is_child_def new_node_def)

lemma node_of_Some: "get_node w n = Some nd \<Longrightarrow> node_of n w = (Inr nd, w)"
  by (simp add: node_of_def)


lemma upd_node_Some:
  "get_node w n = Some nd \<Longrightarrow>
   upd_node n f w = (Inr (), w\<lparr>nodes := (nodes w)[n := Some (f nd)]\<rparr>)"
  by (simp add: upd_node_def)

lemma input_Some:
  "get_node w n = Some nd \<Longrightarrow> input n i w = (Inr (input_at (ninputs nd) i), w)"
  by (simp add: input_def bnd_apply node_of_Some ret_apply)

lemma setInput_Some:
  "get_node w n = Some nd \<Longrightarrow>
   setInput n i m w =
     (Inr (), w\<lparr>nodes := (nodes w)[n := Some (nd\<lparr>ninputs := connect (ninputs nd) i m\<rparr>)]\<rparr>)"
  by (simp add: setInput_def upd_node_Some)

subsection \<open>Wiring\<close>

lemma input_at_connect: "input_at (connect xs i m) j = (if j = i then Some m else input_at xs j)"
  by (auto simp: input_at_def connect_def nth_append nth_list_update)

lemma free_slot_spec:
  "i \<le> free_slot xs i \<and> input_at xs (free_slot xs i) = None \<and>
   (\<forall>j. i \<le> j \<and> j < free_slot xs i \<longrightarrow> input_at xs j \<noteq> None)"
proof (induction xs i rule: free_slot.induct)
  case (1 xs idx)
  show ?case
  proof (cases "input_at xs idx = None")
    case True
    then show ?thesis by (auto simp: free_slot.simps[of xs idx])
  next
    case False
    with 1 have IH: "Suc idx \<le> free_slot xs (Suc idx) \<and>
        input_at xs (free_slot xs (Suc idx)) = None \<and>
        (\<forall>j. Suc idx \<le> j \<and> j < free_slot xs (Suc idx) \<longrightarrow> input_at xs j \<noteq> None)"
      by simp
    have eq: "free_slot xs idx = free_slot xs (Suc idx)"
      using False by (simp add: free_slot.simps[of xs idx])
    show ?thesis
      unfolding eq using IH False by (metis Suc_leD Suc_leI le_neq_implies_less)
  qed
qed

lemma merge_node_cases:
  assumes "merge_node h p name w = (r, w0)"
  shows "(\<exists>e. r = Inl e \<and> w0 = w) \<or>
         (\<exists>m nd. r = Inr m \<and> w0 = w \<and> child w p name = Some m \<and>
                 get_node w m = Some nd \<and> ntype nd = ''merge'') \<or>
         (\<exists>nm. r = Inr (length (nodes w)) \<and>
               w0 = w\<lparr>nodes := nodes w @ [Some (new_node nm ''merge'' p)]\<rparr>)"
  using assms
  by (auto simp: merge_node_def node_child_def bnd_def node_of_def ret_def raise_def createNode_def
      type_name_def Let_def split: option.splits if_splits dest: child_alive)

lemma connect_merge_wiring:
  assumes "merge_node h p name w = (Inr m, w0)" and "get_node w0 m = Some nd"
  shows "connect_merge h p a b name w =
           (Inr m, w0\<lparr>nodes := (nodes w0)[m := Some (nd\<lparr>ninputs := rewire (ninputs nd) a b\<rparr>)]\<rparr>)"
proof -
  from assms(2) have len: "m < length (nodes w0)" by (rule get_node_length)
  show ?thesis
    using assms len
    by (simp add: connect_merge_def bnd_apply thn_apply ret_apply input_Some setInput_Some
        node_of_Some get_node_update rewire_def Let_def input_at_connect)
qed

lemma rewire_spec:
  "input_at (rewire xs a b) 0 = Some a \<and>
   (input_at xs 0 = None \<longrightarrow> input_at (rewire xs a b) 1 = Some b \<and> (\<forall>i>1. input_at (rewire xs a b) i = input_at xs i)) \<and>
   (input_at xs 0 \<noteq> None \<longrightarrow> (\<exists>k\<ge>1. input_at xs k = None \<and> (\<forall>j. 1 \<le> j \<and> j < k \<longrightarrow> input_at xs j \<noteq> None) \<and>
       input_at (rewire xs a b) k = Some b \<and> (\<forall>i. i \<noteq> 0 \<and> i \<noteq> k \<longrightarrow> input_at (rewire xs a b) i = input_at xs i)))"
proof -
  let ?k = "free_slot xs 1"
  from free_slot_spec[of 1 xs] have k: "1 \<le> ?k" "input_at xs ?k = None"
    "\<forall>j. 1 \<le> j \<and> j < ?k \<longrightarrow> input_at xs j \<noteq> None" by auto
  show ?thesis
  proof (cases "input_at xs 0 = None")
    case True
    then show ?thesis by (simp add: rewire_def input_at_connect)
  next
    case False
    have "input_at (rewire xs a b) ?k = Some b \<and> input_at (rewire xs a b) 0 = Some a \<and> (\<forall>i. i \<noteq> 0 \<and> i \<noteq> ?k \<longrightarrow> input_at (rewire xs a b) i = input_at xs i)"
      using False k(1) by (auto simp: rewire_def Let_def input_at_connect)
    with k False show ?thesis by blast
  qed
qed

lemma merge_node_succeeds:
  assumes "get_node w p \<noteq> None" and "type_parms h ''merge'' \<noteq> None"
  shows "\<exists>m w0 nd. merge_node h p name w = (Inr m, w0) \<and> get_node w0 m = Some nd \<and> ntype nd = ''merge'' \<and>
           ((w0 = w \<and> child w p name = Some m) \<or> (m = length (nodes w) \<and> (\<forall>n. n \<noteq> m \<longrightarrow> get_node w0 n = get_node w n) \<and> ninputs nd = []))"
  using assms
  by (auto simp: merge_node_def node_child_def bnd_def node_of_def ret_def raise_def createNode_def
      type_name_def Let_def get_node_append new_node_def split: option.splits if_splits dest: child_alive)


subsection \<open>The contract of \<open>_connect_merge\<close>\<close>

text \<open>
  C2. On a live parent and a host that provides merge nodes, \<open>_connect_merge\<close> returns
  the merge node \<open>m\<close> it looked up or created (world \<open>w0\<close> after that step). If input
  0 of \<open>m\<close> was unconnected, \<open>a\<close> is wired at input 0 and \<open>b\<close> at input 1; otherwise
  \<open>b\<close> is wired at the first unconnected input index from 1 on, input 0 ends up being
  \<open>a\<close>; every other input and every other node is left as it was.
\<close>

theorem connect_merge_contract:
  assumes "get_node w parent \<noteq> None" and "type_parms h ''merge'' \<noteq> None"
  shows "\<exists>m w0 w'. merge_node h parent name w = (Inr m, w0) \<and>
           connect_merge h parent a b name w = (Inr m, w') \<and>
           type_of w' m = Some ''merge'' \<and>
           ((w0 = w \<and> child w parent name = Some m) \<or> (m = length (nodes w) \<and> inputs_of w0 m = [])) \<and>
           (wired w0 m 0 = None \<longrightarrow>
              wired w' m 0 = Some a \<and> wired w' m 1 = Some b \<and>
              (\<forall>i>1. wired w' m i = wired w0 m i)) \<and>
           (wired w0 m 0 \<noteq> None \<longrightarrow>
              (\<exists>k\<ge>1. wired w0 m k = None \<and> (\<forall>j. 1 \<le> j \<and> j < k \<longrightarrow> wired w0 m j \<noteq> None) \<and>
                 wired w' m k = Some b \<and> wired w' m 0 = Some a \<and>
                 (\<forall>i. i \<noteq> 0 \<and> i \<noteq> k \<longrightarrow> wired w' m i = wired w0 m i))) \<and>
           (\<forall>n. n \<noteq> m \<longrightarrow> get_node w' n = get_node w0 n)"
proof -
  from merge_node_succeeds[OF assms, of name] obtain m w0 nd where
    mn: "merge_node h parent name w = (Inr m, w0)" and nd: "get_node w0 m = Some nd"
    and ty: "ntype nd = ''merge''"
    and origin: "(w0 = w \<and> child w parent name = Some m) \<or>
      (m = length (nodes w) \<and> (\<forall>n. n \<noteq> m \<longrightarrow> get_node w0 n = get_node w n) \<and> ninputs nd = [])"
    by blast
  define w' where "w' = w0\<lparr>nodes := (nodes w0)[m := Some (nd\<lparr>ninputs := rewire (ninputs nd) a b\<rparr>)]\<rparr>"
  have cm: "connect_merge h parent a b name w = (Inr m, w')"
    unfolding w'_def by (rule connect_merge_wiring[OF mn nd])
  have len: "m < length (nodes w0)" using nd by (rule get_node_length)
  have new: "get_node w' m = Some (nd\<lparr>ninputs := rewire (ninputs nd) a b\<rparr>)"
    unfolding w'_def using len by (simp add: get_node_update)
  have others: "\<forall>n. n \<noteq> m \<longrightarrow> get_node w' n = get_node w0 n"
    unfolding w'_def by (simp add: get_node_update)
  have before: "\<And>i. wired w0 m i = input_at (ninputs nd) i"
    by (simp add: wired_def inputs_of_def nd)
  have after: "\<And>i. wired w' m i = input_at (rewire (ninputs nd) a b) i"
    by (simp add: wired_def inputs_of_def new)
  have tyw: "type_of w' m = Some ''merge''"
    by (simp add: type_of_def new ty)
  have orig2: "(w0 = w \<and> child w parent name = Some m) \<or> (m = length (nodes w) \<and> inputs_of w0 m = [])"
    using origin by (auto simp: inputs_of_def nd)
  have none: "wired w0 m 0 = None \<longrightarrow>
              wired w' m 0 = Some a \<and> wired w' m 1 = Some b \<and>
              (\<forall>i>1. wired w' m i = wired w0 m i)"
    unfolding before after using rewire_spec[of "ninputs nd" a b] by blast
  have some: "wired w0 m 0 \<noteq> None \<longrightarrow>
              (\<exists>k\<ge>1. wired w0 m k = None \<and> (\<forall>j. 1 \<le> j \<and> j < k \<longrightarrow> wired w0 m j \<noteq> None) \<and>
                 wired w' m k = Some b \<and> wired w' m 0 = Some a \<and>
                 (\<forall>i. i \<noteq> 0 \<and> i \<noteq> k \<longrightarrow> wired w' m i = wired w0 m i))"
    unfolding before after using rewire_spec[of "ninputs nd" a b] by blast
  show ?thesis
    apply (rule exI[of _ m], rule exI[of _ w0], rule exI[of _ w'])
    using mn cm tyw orig2 none some others by (intro conjI) assumption+
qed

theorem connect_merge_contract_witness:
  "get_node wired_scene 4 \<noteq> None \<and> type_parms std_host ''merge'' \<noteq> None \<and>
   (\<exists>m w'. connect_merge std_host 4 5 6 ''merge_rivets'' wired_scene = (Inr m, w') \<and>
       type_of w' m = Some ''merge'' \<and> wired w' m 0 = Some 5)"
proof -
  have h1: "get_node wired_scene 4 \<noteq> None" by code_simp
  have h2: "type_parms std_host ''merge'' \<noteq> None" by code_simp
  from connect_merge_contract[OF h1 h2, of "''merge_rivets''" 5 6]
  obtain m w0 w' where "connect_merge std_host 4 5 6 ''merge_rivets'' wired_scene = (Inr m, w')"
    and "type_of w' m = Some ''merge''"
    and "wired w0 m 0 = None \<longrightarrow> wired w' m 0 = Some 5"
    and "wired w0 m 0 \<noteq> None \<longrightarrow> wired w' m 0 = Some 5"
    by blast
  with h1 h2 show ?thesis by blast
qed

lemma count_list_update:
  "k < length ys \<Longrightarrow> \<not> P (ys ! k) \<Longrightarrow> P v \<Longrightarrow>
   length (filter P (ys[k := v])) = Suc (length (filter P ys))"
proof (induction ys arbitrary: k)
  case Nil
  then show ?case by simp
next
  case (Cons y ys)
  then show ?case by (cases k) auto
qed

lemma connect_free_count:
  assumes "input_at xs k = None"
  shows "length (filter (\<lambda>x. x = Some b) (connect xs k b)) = Suc (length (filter (\<lambda>x. x = Some b) xs))"
proof -
  let ?ys = "xs @ replicate (Suc k - length xs) None"
  have len: "k < length ?ys" by simp
  have free: "\<not> (?ys ! k = Some b)"
    using assms by (auto simp: input_at_def nth_append split: if_splits)
  have "length (filter (\<lambda>x. x = Some b) (?ys[k := Some b])) = Suc (length (filter (\<lambda>x. x = Some b) ?ys))"
    using len free by (intro count_list_update) auto
  then show ?thesis by (simp add: connect_def)
qed

lemma rewire_wired:
  assumes "input_at xs 0 = Some a"
  shows "rewire xs a b = connect xs (free_slot xs 1) b"
  using assms free_slot_spec[of 1 xs] by (auto simp: rewire_def Let_def input_at_connect)

text \<open>
  C3, as amended. On a merge node already wired with base \<open>a\<close> at input 0 and branch
  \<open>b\<close> at some input, calling \<open>_connect_merge\<close> again with the same \<open>a\<close> and \<open>b\<close>
  keeps input 0 on \<open>a\<close> and keeps every connected input as it was, but connects \<open>b\<close>
  once more, at the first unconnected input index from 1 on: the number of inputs
  connected to \<open>b\<close> grows by one.
\<close>

theorem connect_merge_again:
  assumes "get_node w parent \<noteq> None" and "child w parent name = Some m"
    and "type_of w m = Some ''merge''" and "wired w m 0 = Some a" and "1 \<le> connections w m b"
  shows "\<exists>w'. connect_merge h parent a b name w = (Inr m, w') \<and>
           wired w' m 0 = Some a \<and>
           (\<forall>i. wired w m i \<noteq> None \<longrightarrow> wired w' m i = wired w m i) \<and>
           (\<exists>k\<ge>1. wired w m k = None \<and> (\<forall>j. 1 \<le> j \<and> j < k \<longrightarrow> wired w m j \<noteq> None) \<and>
              wired w' m k = Some b) \<and>
           connections w' m b = connections w m b + 1 \<and>
           (\<forall>n. n \<noteq> m \<longrightarrow> get_node w' n = get_node w n)"
proof -
  from assms(3) obtain nd where nd: "get_node w m = Some nd" and ty: "ntype nd = ''merge''"
    by (auto simp: type_of_def)
  from assms(1) obtain pn where pn: "get_node w parent = Some pn" by auto
  have mn: "merge_node h parent name w = (Inr m, w)"
    by (simp add: merge_node_def node_child_def type_name_def run node_of_Some[OF pn]
        node_of_Some[OF nd] assms(2) ty)
  have i0: "input_at (ninputs nd) 0 = Some a"
    using assms(4) by (simp add: wired_def inputs_of_def nd)
  let ?k = "free_slot (ninputs nd) 1"
  define w' where "w' = w\<lparr>nodes := (nodes w)[m := Some (nd\<lparr>ninputs := connect (ninputs nd) ?k b\<rparr>)]\<rparr>"
  have cm: "connect_merge h parent a b name w = (Inr m, w')"
    using connect_merge_wiring[OF mn nd, of a b] by (simp add: w'_def rewire_wired[OF i0])
  have len: "m < length (nodes w)" using nd by (rule get_node_length)
  have new: "get_node w' m = Some (nd\<lparr>ninputs := connect (ninputs nd) ?k b\<rparr>)"
    unfolding w'_def using len by (simp add: get_node_update)
  have others: "\<forall>n. n \<noteq> m \<longrightarrow> get_node w' n = get_node w n"
    unfolding w'_def by (simp add: get_node_update)
  have before: "\<And>i. wired w m i = input_at (ninputs nd) i"
    by (simp add: wired_def inputs_of_def nd)
  have after: "\<And>i. wired w' m i = (if i = ?k then Some b else input_at (ninputs nd) i)"
    by (simp add: wired_def inputs_of_def new input_at_connect)
  from free_slot_spec[of 1 "ninputs nd"] have k: "1 \<le> ?k" "input_at (ninputs nd) ?k = None"
    "\<forall>j. 1 \<le> j \<and> j < ?k \<longrightarrow> input_at (ninputs nd) j \<noteq> None" by auto
  have c0: "wired w' m 0 = Some a" using k(1) i0 by (simp add: after)
  have keep: "\<forall>i. wired w m i \<noteq> None \<longrightarrow> wired w' m i = wired w m i"
    using k(2) by (auto simp: before after)
  have slot: "\<exists>k\<ge>1. wired w m k = None \<and> (\<forall>j. 1 \<le> j \<and> j < k \<longrightarrow> wired w m j \<noteq> None) \<and>
              wired w' m k = Some b"
    unfolding before using k by (intro exI[of _ ?k]) (simp add: after)
  have cnt: "connections w' m b = connections w m b + 1"
    using connect_free_count[OF k(2), of b] by (simp add: connections_def inputs_of_def new nd)
  show ?thesis
    apply (rule exI[of _ w'])
    using cm c0 keep slot cnt others by (intro conjI) assumption+
qed

theorem connect_merge_again_witness:
  "get_node wired_scene 4 \<noteq> None \<and> child wired_scene 4 ''merge_rivets'' = Some 7 \<and>
   type_of wired_scene 7 = Some ''merge'' \<and> wired wired_scene 7 0 = Some 5 \<and>
   1 \<le> connections wired_scene 7 6 \<and>
   (\<exists>w'. connect_merge std_host 4 5 6 ''merge_rivets'' wired_scene = (Inr 7, w') \<and>
      connections w' 7 6 = connections wired_scene 7 6 + 1)"
proof -
  have h1: "get_node wired_scene 4 \<noteq> None" by code_simp
  have h2: "child wired_scene 4 ''merge_rivets'' = Some 7" by code_simp
  have h3: "type_of wired_scene 7 = Some ''merge''" by code_simp
  have h4: "wired wired_scene 7 0 = Some 5" by code_simp
  have h5: "1 \<le> connections wired_scene 7 6" by code_simp
  from connect_merge_again[OF h1 h2 h3 h4 h5, of std_host]
  obtain w' where "connect_merge std_host 4 5 6 ''merge_rivets'' wired_scene = (Inr 7, w')"
    and "connections w' 7 6 = connections wired_scene 7 6 + 1" by blast
  with h1 h2 h3 h4 h5 show ?thesis by blast
qed

text \<open>
  C3, as stated, fails: on the merge node of \<open>wired_scene\<close>, wired \<open>[5, 6]\<close>, a second
  call with base 5 and branch 6 leaves the wiring \<open>[5, 6, 6]\<close>.
\<close>

theorem connect_merge_idempotent_counterexample:
  "wired wired_scene 7 0 = Some 5 \<and> wired wired_scene 7 1 = Some 6 \<and>
   connections wired_scene 7 6 = 1 \<and>
   fst (connect_merge std_host 4 5 6 ''merge_rivets'' wired_scene) = Inr 7 \<and>
   inputs_of (snd (connect_merge std_host 4 5 6 ''merge_rivets'' wired_scene)) 7 = [Some 5, Some 6, Some 6] \<and>
   connections (snd (connect_merge std_host 4 5 6 ''merge_rivets'' wired_scene)) 7 6 = 2"
  by code_simp

subsection \<open>\<open>_get_or_create\<close>\<close>

lemma get_or_create_cases:
  assumes "get_or_create h p ty name w = (r, w1)"
  shows "(\<exists>e. r = Inl e \<and> w1 = w) \<or>
         (\<exists>n. r = Inr n \<and> w1 = w \<and> child w p name = Some n \<and> get_node w p \<noteq> None) \<or>
         (r = Inr (length (nodes w)) \<and> child w p name = None \<and> get_node w p \<noteq> None \<and>
            w1 = w\<lparr>nodes := nodes w @ [Some (new_node name ty p)]\<rparr>)"
  using assms
  by (auto simp: get_or_create_def node_child_def bnd_def node_of_def ret_def raise_def createNode_def
      Let_def split: option.splits if_splits)

lemma get_or_create_found:
  "get_node w p \<noteq> None \<Longrightarrow> child w p name = Some n \<Longrightarrow> get_or_create h p ty name w = (Inr n, w)"
  by (auto simp: get_or_create_def node_child_def bnd_def node_of_def ret_def split: option.splits)

lemma get_or_create_succeeds:
  "get_node w p \<noteq> None \<Longrightarrow> child w p name \<noteq> None \<or> type_parms h ty \<noteq> None \<Longrightarrow>
   \<exists>n w1. get_or_create h p ty name w = (Inr n, w1)"
  by (auto simp: get_or_create_def node_child_def bnd_def node_of_def ret_def createNode_def Let_def
      split: option.splits)

text \<open>
  C10. \<open>_get_or_create\<close> and the identical \<open>get_or_create\<close> are idempotent: an
  existing child of that name is returned and the world is left as it is; a call that
  raises creates nothing; after a call that returns node \<open>n\<close>, a second call with the
  same arguments returns \<open>n\<close> again and changes nothing, so at most one node is created
  in total. On a live parent the call returns whenever the child exists or the host
  provides the node type.
\<close>

theorem get_or_create_idempotent:
  "get_or_create_ship h p ty name = get_or_create h p ty name \<and>
   (\<forall>n. get_node w p \<noteq> None \<and> child w p name = Some n \<longrightarrow>
        get_or_create h p ty name w = (Inr n, w)) \<and>
   (\<forall>e w1. get_or_create h p ty name w = (Inl e, w1) \<longrightarrow> w1 = w) \<and>
   (\<forall>n w1. get_or_create h p ty name w = (Inr n, w1) \<longrightarrow>
        get_or_create h p ty name w1 = (Inr n, w1) \<and>
        length (nodes w1) \<le> length (nodes w) + 1 \<and>
        (child w p name \<noteq> None \<longrightarrow> w1 = w)) \<and>
   (get_node w p \<noteq> None \<and> (child w p name \<noteq> None \<or> type_parms h ty \<noteq> None) \<longrightarrow>
        (\<exists>n w1. get_or_create h p ty name w = (Inr n, w1)))"
proof -
  have same: "get_or_create_ship h p ty name = get_or_create h p ty name"
    by (simp add: get_or_create_ship_def get_or_create_def)
  have found: "\<forall>n. get_node w p \<noteq> None \<and> child w p name = Some n \<longrightarrow>
        get_or_create h p ty name w = (Inr n, w)"
    by (simp add: get_or_create_found)
  have failed: "\<forall>e w1. get_or_create h p ty name w = (Inl e, w1) \<longrightarrow> w1 = w"
    using get_or_create_cases[of h p ty name w] by blast
  have twice: "\<forall>n w1. get_or_create h p ty name w = (Inr n, w1) \<longrightarrow>
        get_or_create h p ty name w1 = (Inr n, w1) \<and>
        length (nodes w1) \<le> length (nodes w) + 1 \<and>
        (child w p name \<noteq> None \<longrightarrow> w1 = w)"
  proof (intro allI impI)
    fix n w1
    assume run1: "get_or_create h p ty name w = (Inr n, w1)"
    from get_or_create_cases[OF run1]
    consider (old) "w1 = w" "child w p name = Some n" "get_node w p \<noteq> None"
      | (new) "n = length (nodes w)" "child w p name = None" "get_node w p \<noteq> None"
          "w1 = w\<lparr>nodes := nodes w @ [Some (new_node name ty p)]\<rparr>"
      by auto
    then show "get_or_create h p ty name w1 = (Inr n, w1) \<and>
        length (nodes w1) \<le> length (nodes w) + 1 \<and> (child w p name \<noteq> None \<longrightarrow> w1 = w)"
    proof cases
      case old
      then show ?thesis by (simp add: get_or_create_found)
    next
      case new
      have c: "child w1 p name = Some n"
        unfolding new(4) new(1) by (rule child_after_create[OF new(2)])
      have a: "get_node w1 p \<noteq> None"
        using new(3) get_node_length[of w p] by (auto simp: new(4) get_node_append)
      show ?thesis using get_or_create_found[OF a c] new by simp
    qed
  qed
  have total: "get_node w p \<noteq> None \<and> (child w p name \<noteq> None \<or> type_parms h ty \<noteq> None) \<longrightarrow>
        (\<exists>n w1. get_or_create h p ty name w = (Inr n, w1))"
    using get_or_create_succeeds[of w p name h ty] by blast
  from same found failed twice total show ?thesis by (intro conjI) assumption+
qed

theorem get_or_create_idempotent_witness:
  "get_node fresh_scene 1 \<noteq> None \<and> type_parms std_host ''geo'' \<noteq> None \<and>
   (\<exists>n w1. get_or_create std_host 1 ''geo'' ''interstellar_ship'' fresh_scene = (Inr n, w1) \<and>
      get_or_create std_host 1 ''geo'' ''interstellar_ship'' w1 = (Inr n, w1) \<and>
      length (nodes w1) \<le> length (nodes fresh_scene) + 1)"
proof -
  have h1: "get_node fresh_scene 1 \<noteq> None" by code_simp
  have h2: "type_parms std_host ''geo'' \<noteq> None" by code_simp
  note t = get_or_create_idempotent[of std_host 1 "''geo''" "''interstellar_ship''" fresh_scene]
  from t h1 h2 obtain n w1 where
    r: "get_or_create std_host 1 ''geo'' ''interstellar_ship'' fresh_scene = (Inr n, w1)" by blast
  with t have "get_or_create std_host 1 ''geo'' ''interstellar_ship'' w1 = (Inr n, w1) \<and>
      length (nodes w1) \<le> length (nodes fresh_scene) + 1" by blast
  with r h1 h2 show ?thesis by blast
qed

subsection \<open>Laws of the program monad\<close>

lemma bnd_ret: "bnd (ret x) f = f x"
  by (simp add: bnd_def ret_def)

lemma thn_ret: "thn (ret ()) k = k"
  by (simp add: thn_def bnd_def ret_def)

lemma bnd_raise: "bnd (raise e) f = raise e"
  by (simp add: bnd_def raise_def)

lemma thn_raise: "thn (raise e) k = raise e"
  by (simp add: thn_def bnd_def raise_def)

lemma try_ret: "try_except (ret x) h = ret x"
  by (simp add: try_except_def ret_def)

lemma try_raise: "try_except (raise e) h = h e"
  by (simp add: try_except_def raise_def)

lemma bnd_Inr: "m w = (Inr x, w') \<Longrightarrow> bnd m f w = f x w'"
  by (simp add: bnd_def)

lemma bnd_Inl: "m w = (Inl e, w') \<Longrightarrow> bnd m f w = (Inl e, w')"
  by (simp add: bnd_def)


lemma thn_Inl: "m w = (Inl e, w') \<Longrightarrow> thn m k w = (Inl e, w')"
  by (simp add: thn_def bnd_def)

lemma try_Inr: "m w = (Inr x, w') \<Longrightarrow> try_except m h w = (Inr x, w')"
  by (simp add: try_except_def)

lemma try_Inl: "m w = (Inl e, w') \<Longrightarrow> try_except m h w = h e w'"
  by (simp add: try_except_def)

lemmas monad_laws = bnd_ret thn_ret bnd_raise thn_raise try_ret try_raise

lemma sd_request_cases:
  assumes "sd_request h init prompt w = (r, w1)"
  shows "w1 = w \<and>
    ((\<exists>e p. r = Inl e \<and> init = Some p \<and> entry w p \<noteq> None \<and>
         \<not> (\<exists>bs. entry w p = Some (File bs) \<and> readable h p)) \<or>
     (r = Inr (''/sdapi/v1/txt2img'', JObj (base_payload prompt)) \<and>
         (init = None \<or> (\<exists>p. init = Some p \<and> entry w p = None))) \<or>
     (\<exists>p bs. init = Some p \<and> entry w p = Some (File bs) \<and> readable h p \<and>
         r = Inr (''/sdapi/v1/img2img'', JObj (base_payload prompt @
               [(''init_images'', JArr [JStr (b64encode h bs)]),
                (''denoising_strength'', JNum (6 / 10))]))))"
  using assms
  by (auto simp: sd_request_def run exists_path_def read_bytes_def
      split: option.splits fentry.splits if_splits)

lemma ancestors_shorter: "q \<in> set (ancestors p) \<Longrightarrow> q \<noteq> [] \<and> length q \<le> length p"
  by (auto simp: ancestors_def)

lemma self_ancestor: "p \<noteq> [] \<Longrightarrow> p \<in> set (ancestors p)"
proof -
  assume "p \<noteq> []"
  then have "length p \<in> {1..<Suc (length p)}" by (cases p) auto
  then have "take (length p) p \<in> set (ancestors p)" unfolding ancestors_def by (simp del: take_all)
  then show ?thesis by simp
qed

lemma parent_dir_shorter: "out \<noteq> [] \<Longrightarrow> out \<noteq> [''/''] \<Longrightarrow> length (parent_dir out) < length out"
  by (cases out rule: parent_dir.cases) auto

lemma out_not_ancestor:
  "out \<noteq> [] \<Longrightarrow> out \<noteq> [''/''] \<Longrightarrow> out \<notin> set (ancestors (parent_dir out))"
  using parent_dir_shorter[of out] ancestors_shorter[of out "parent_dir out"] by auto

lemma write_image:
  assumes ok: "can_write_image h w out"
  shows "thn (mkdir_parents h (parent_dir out)) (thn (write_bytes h out png) (ret True)) w =
     (Inr True, w\<lparr>files := (\<lambda>q. if q = out then Some (File png)
        else if q \<in> set (ancestors (parent_dir out)) \<and> files w q = None then Some Dir
        else files w q)\<rparr>)"
proof -
  let ?P = "parent_dir out"
  from ok have ne: "out \<noteq> []" "out \<noteq> [''/'']"
    and anc: "\<forall>q \<in> set (ancestors ?P). \<not> is_file (entry w q) \<and> (entry w q = None \<longrightarrow> writable h q)"
    and o1: "entry w out \<noteq> Some Dir" and o2: "writable h out"
    by (auto simp: can_write_image_def)
  define w2 where "w2 = w\<lparr>files := (\<lambda>q. if q \<in> set (ancestors ?P) \<and> files w q = None
                                   then Some Dir else files w q)\<rparr>"
  have mk: "mkdir_parents h ?P w = (Inr (), w2)"
    using anc by (auto simp: mkdir_parents_def w2_def)
  have notanc: "out \<notin> set (ancestors ?P)" using ne by (rule out_not_ancestor)
  have e1: "entry w2 out \<noteq> Some Dir"
    using o1 notanc ne by (simp add: entry_def w2_def)
  have e2: "entry w2 ?P = Some Dir"
  proof (cases "?P = []")
    case True
    then show ?thesis by (simp add: entry_def)
  next
    case False
    then have mem: "?P \<in> set (ancestors ?P)" by (rule self_ancestor)
    with anc have nf: "\<not> is_file (entry w ?P)" by blast
    show ?thesis
    proof (cases "files w ?P")
      case None
      with mem False show ?thesis by (simp add: entry_def w2_def)
    next
      case (Some fe)
      with nf False have "fe = Dir" by (cases fe) (auto simp: entry_def)
      with Some mem False show ?thesis by (simp add: entry_def w2_def)
    qed
  qed
  have wr: "write_bytes h out png w2 = (Inr (), w2\<lparr>files := (files w2)(out := Some (File png))\<rparr>)"
    using e1 e2 o2 by (simp add: write_bytes_def)
  have "w2\<lparr>files := (files w2)(out := Some (File png))\<rparr> =
      w\<lparr>files := (\<lambda>q. if q = out then Some (File png)
        else if q \<in> set (ancestors ?P) \<and> files w q = None then Some Dir else files w q)\<rparr>"
    by (auto simp: w2_def fun_eq_iff)
  with mk wr show ?thesis by (simp add: run)
qed

subsection \<open>The texture round trip\<close>

text \<open>
  C5. With \<open>api_url\<close> \<open>None\<close> or the empty string, \<open>_call_stable_diffusion\<close> prints the
  skip message and returns \<open>False\<close>; nothing else of the world changes: no request is
  sent and no file is written.
\<close>

theorem call_stable_diffusion_no_url:
  "call_stable_diffusion h init_image prompt output_image None w =
     (Inr False, w\<lparr>printed := printed w @
         [''[Interstellar] No Stable Diffusion API URL provided; skipping.'']\<rparr>) \<and>
   call_stable_diffusion h init_image prompt output_image (Some []) w =
     (Inr False, w\<lparr>printed := printed w @
         [''[Interstellar] No Stable Diffusion API URL provided; skipping.'']\<rparr>) \<and>
   posted (snd (call_stable_diffusion h init_image prompt output_image None w)) = posted w \<and>
   files (snd (call_stable_diffusion h init_image prompt output_image None w)) = files w \<and>
   posted (snd (call_stable_diffusion h init_image prompt output_image (Some []) w)) = posted w \<and>
   files (snd (call_stable_diffusion h init_image prompt output_image (Some []) w)) = files w"
  by (simp add: call_stable_diffusion_def run print_def)

lemma raise_for_status_ok: "status_ok status \<Longrightarrow> raise_for_status (status, c) = ret ()"
  by (auto simp: raise_for_status_def status_ok_def)

lemma raise_for_status_bad:
  "\<not> status_ok status \<Longrightarrow> raise_for_status (status, c) = raise (HTTPError ''bad status'')"
  by (auto simp: raise_for_status_def status_ok_def)

lemma round_trip_image:
  assumes reply: "http h url payload = Reply status (Some (JObj kvs))"
    and st: "status_ok status"
    and imgs: "map_of kvs ''images'' = Some (JArr (JStr s # rest))"
    and dec: "b64decode h s = Some png"
    and ok: "can_write_image h w out"
  shows "sd_round_trip h url payload out w =
     (Inr True, w\<lparr>posted := posted w @ [(url, payload)],
        files := (\<lambda>q. if q = out then Some (File png)
          else if q \<in> set (ancestors (parent_dir out)) \<and> files w q = None then Some Dir
          else files w q)\<rparr>)"
proof -
  let ?w1 = "w\<lparr>posted := posted w @ [(url, payload)]\<rparr>"
  have "entry ?w1 = entry w" by (simp add: entry_def fun_eq_iff)
  then have ok1: "can_write_image h ?w1 out"
    using ok unfolding can_write_image_def by simp
  have st': "\<not> (400 \<le> status \<and> status < 600)" using st by (auto simp: status_ok_def)
  have rp: "requests_post h url payload w = (Inr (status, Some (JObj kvs)), ?w1)"
    by (simp add: requests_post_def reply)
  have "sd_round_trip h url payload out w =
      thn (mkdir_parents h (parent_dir out)) (thn (write_bytes h out png) (ret True)) ?w1"
    by (simp add: sd_round_trip_def bnd_Inr[where m="requests_post h url payload", OF rp] Let_def
        raise_for_status_ok[OF st] resp_json_def imgs dec monad_laws)
  then show ?thesis
    using write_image[OF ok1, of png] by (simp cong: if_cong)
qed

lemma round_trip_no_images:
  assumes reply: "http h url payload = Reply status (Some (JObj kvs))"
    and st: "status_ok status" and none: "no_images kvs"
  shows "sd_round_trip h url payload out w =
     (Inr False, w\<lparr>posted := posted w @ [(url, payload)],
                   printed := printed w @ [''[Interstellar] SD returned no images.'']\<rparr>)"
proof -
  let ?w1 = "w\<lparr>posted := posted w @ [(url, payload)]\<rparr>"
  have st': "\<not> (400 \<le> status \<and> status < 600)" using st by (auto simp: status_ok_def)
  have rp: "requests_post h url payload w = (Inr (status, Some (JObj kvs)), ?w1)"
    by (simp add: requests_post_def reply)
  have "\<not> truthy (case map_of kvs ''images'' of None \<Rightarrow> JNull | Some v \<Rightarrow> v)"
    using none by (auto simp: no_images_def)
  then show ?thesis
    by (simp add: sd_round_trip_def bnd_Inr[where m="requests_post h url payload", OF rp] Let_def
        raise_for_status_ok[OF st] resp_json_def monad_laws thn_apply print_def ret_apply)
qed

lemma round_trip_no_reply:
  assumes reply: "http h url payload = NoReply msg"
  shows "sd_round_trip h url payload out w =
     (Inl (RequestError msg), w\<lparr>posted := posted w @ [(url, payload)]\<rparr>)"
  by (simp add: sd_round_trip_def bnd_apply requests_post_def reply)

lemma keepsD: "keeps g m \<Longrightarrow> g (snd (m w)) = g w"
  by (simp add: keeps_def)

lemma keeps_ret: "keeps g (ret x)"
  by (simp add: keeps_def ret_def)

lemma keeps_raise: "keeps g (raise e)"
  by (simp add: keeps_def raise_def)

lemma keeps_bnd: "keeps g m \<Longrightarrow> (\<And>x. keeps g (f x)) \<Longrightarrow> keeps g (bnd m f)"
  unfolding keeps_def bnd_def
proof (intro allI)
  fix w
  assume a: "\<forall>w. g (snd (m w)) = g w" and b: "\<And>x. \<forall>w. g (snd (f x w)) = g w"
  obtain r w' where mw: "m w = (r, w')" by (cases "m w")
  with a have "g w' = g w" by (metis snd_conv)
  with b mw show "g (snd (case m w of (Inl e, w') \<Rightarrow> (Inl e, w') | (Inr x, w') \<Rightarrow> f x w')) = g w"
    by (cases r) auto
qed

lemma keeps_thn: "keeps g m \<Longrightarrow> keeps g k \<Longrightarrow> keeps g (thn m k)"
  by (simp add: thn_def keeps_bnd)

lemma keeps_try: "keeps g m \<Longrightarrow> (\<And>e. keeps g (h e)) \<Longrightarrow> keeps g (try_except m h)"
  unfolding keeps_def try_except_def
proof (intro allI)
  fix w
  assume a: "\<forall>w. g (snd (m w)) = g w" and b: "\<And>e. \<forall>w. g (snd (h e w)) = g w"
  obtain r w' where mw: "m w = (r, w')" by (cases "m w")
  with a have "g w' = g w" by (metis snd_conv)
  with b mw show "g (snd (case m w of (Inl e, w') \<Rightarrow> h e w' | (Inr x, w') \<Rightarrow> (Inr x, w'))) = g w"
    by (cases r) auto
qed

lemma keeps_if: "keeps g a \<Longrightarrow> keeps g b \<Longrightarrow> keeps g (if c then a else b)"
  by simp

lemma keeps_option: "keeps g a \<Longrightarrow> (\<And>x. keeps g (f x)) \<Longrightarrow> keeps g (case v of None \<Rightarrow> a | Some x \<Rightarrow> f x)"
  by (cases v) auto

lemma keeps_prod: "(\<And>a b. keeps g (f a b)) \<Longrightarrow> keeps g (case v of (a, b) \<Rightarrow> f a b)"
  by (cases v) auto

lemma keeps_let: "keeps g (f x) \<Longrightarrow> keeps g (Let x f)"
  by simp

lemma keeps_block: "(\<And>m. m \<in> set ms \<Longrightarrow> keeps g m) \<Longrightarrow> keeps g (block ms)"
  by (induction ms) (auto simp: keeps_ret keeps_thn)

lemmas keeps_intros = keeps_ret keeps_raise keeps_bnd keeps_thn keeps_try keeps_if keeps_option
  keeps_prod keeps_let

lemma keeps_print: "keeps nodes (print s)" "keeps files (print s)" "keeps posted (print s)"
  by (simp_all add: keeps_def print_def)

lemma keeps_exists_path: "keeps g (exists_path p)"
  by (simp add: keeps_def exists_path_def)

lemma keeps_read_bytes: "keeps g (read_bytes h p)"
  by (simp add: keeps_def read_bytes_def split: option.splits fentry.splits)

lemma keeps_mkdir_parents: "keeps nodes (mkdir_parents h p)" "keeps posted (mkdir_parents h p)"
  "keeps printed (mkdir_parents h p)"
  by (simp_all add: keeps_def mkdir_parents_def)

lemma keeps_write_bytes: "keeps nodes (write_bytes h p bs)" "keeps posted (write_bytes h p bs)"
  "keeps printed (write_bytes h p bs)"
  by (simp_all add: keeps_def write_bytes_def)

lemma keeps_requests_post: "keeps nodes (requests_post h u b)" "keeps files (requests_post h u b)"
  "keeps printed (requests_post h u b)"
  by (simp_all add: keeps_def requests_post_def Let_def split: reply.splits)

lemma keeps_raise_for_status: "keeps g (raise_for_status r)"
  by (simp add: raise_for_status_def keeps_intros)

lemma keeps_resp_json: "keeps g (resp_json r)"
  by (simp add: resp_json_def keeps_intros split: option.splits)

lemma keeps_dict_get: "keeps g (dict_get d k)"
  by (cases "(d, k)" rule: dict_get.cases) (simp_all add: keeps_intros)

lemma keeps_subscript0: "keeps g (subscript0 x)"
  by (cases x rule: subscript0.cases) (simp_all add: keeps_intros)

lemma keeps_b64decode_value: "keeps g (b64decode_value h x)"
  by (cases "(h, x)" rule: b64decode_value.cases) (simp_all add: keeps_intros split: option.splits)

lemmas keeps_sd = keeps_print keeps_exists_path keeps_read_bytes keeps_mkdir_parents
  keeps_write_bytes keeps_requests_post keeps_raise_for_status keeps_resp_json keeps_dict_get
  keeps_subscript0 keeps_b64decode_value

lemma keeps_sd_request: "keeps g (sd_request h init prompt)"
  unfolding sd_request_def by (intro keeps_intros keeps_sd)

lemma round_trip_tail_posted:
  "keeps posted (thn (raise_for_status resp) (
     bnd (resp_json resp) (\<lambda>data.
     bnd (dict_get data ''images'') (\<lambda>got.
       let images = (if truthy got then got else JArr []) in
       if \<not> truthy images then thn (print ''[Interstellar] SD returned no images.'') (ret False)
       else
         bnd (subscript0 images) (\<lambda>img_b64.
         bnd (b64decode_value h img_b64) (\<lambda>png_bytes.
         thn (mkdir_parents h (parent_dir output_image)) (
         thn (write_bytes h output_image png_bytes) (ret True))))))))"
  by (intro keeps_intros keeps_sd)

lemma round_trip_posted:
  "posted (snd (sd_round_trip h url payload out w)) = posted w @ [(url, payload)]"
proof -
  let ?w1 = "w\<lparr>posted := posted w @ [(url, payload)]\<rparr>"
  show ?thesis
  proof (cases "http h url payload")
    case (NoReply msg)
    then show ?thesis by (simp add: round_trip_no_reply)
  next
    case (Reply status content)
    have rp: "requests_post h url payload w = (Inr (status, content), ?w1)"
      by (simp add: requests_post_def Reply)
    show ?thesis
      unfolding sd_round_trip_def bnd_Inr[where m="requests_post h url payload", OF rp]
      using keepsD[OF round_trip_tail_posted, of "(status, content)" h out ?w1] by simp
  qed
qed

lemma keeps_round_trip: "keeps nodes (sd_round_trip h url payload out)"
  unfolding sd_round_trip_def by (intro keeps_intros keeps_sd)

lemma keeps_call_stable_diffusion: "keeps nodes (call_stable_diffusion h init prompt out api_url)"
  unfolding call_stable_diffusion_def by (intro keeps_intros keeps_sd keeps_sd_request keeps_round_trip)

lemma call_sd_configured:
  assumes "url \<noteq> []" and "requests_importable h"
    and "sd_request h init prompt w = (Inr (ep, pl), w1)"
  shows "call_stable_diffusion h init prompt out (Some url) w =
     try_except (sd_round_trip h (rstrip_slash url @ ep) pl out)
       (\<lambda>exc. thn (print (''[Interstellar] Stable Diffusion request failed: '' @ exn_str exc))
                   (ret False)) w"
proof -
  from sd_request_cases[OF assms(3)] have "w1 = w" by simp
  with assms(3) have rq: "sd_request h init prompt w = (Inr (ep, pl), w)" by simp
  show ?thesis
    using assms(1,2)
    by (simp add: call_stable_diffusion_def bnd_Inr[where m="sd_request h init prompt", OF rq])
qed

lemma call_sd_read_fails:
  assumes "url \<noteq> []" and "requests_importable h"
    and "sd_request h init prompt w = (Inl e, w1)"
  shows "call_stable_diffusion h init prompt out (Some url) w = (Inl e, w)"
proof -
  from sd_request_cases[OF assms(3)] have "w1 = w" by simp
  with assms(3) have rq: "sd_request h init prompt w = (Inl e, w)" by simp
  show ?thesis
    using assms(1,2)
    by (simp add: call_stable_diffusion_def bnd_Inl[where m="sd_request h init prompt", OF rq])
qed



text \<open>
  C6. When the request built from the inputs is answered with an accepted status and a
  JSON object whose \<open>images\<close> list starts with a base64 string \<open>s\<close>, and the output
  path can be written, \<open>_call_stable_diffusion\<close> returns \<open>True\<close>; the output path then
  holds the decoding of \<open>s\<close> (the first image; the rest of the list is not looked at),
  every other path is as before except that missing ancestor directories of the
  output path now exist, and exactly one request was sent.
\<close>

theorem call_stable_diffusion_success:
  assumes "url \<noteq> []" and "requests_importable h"
    and "sd_request h init_image prompt w = (Inr (endpoint, payload), w1)"
    and "http h (rstrip_slash url @ endpoint) payload = Reply status (Some (JObj kvs))"
    and "status_ok status"
    and "map_of kvs ''images'' = Some (JArr (JStr s # rest))"
    and "b64decode h s = Some png"
    and "can_write_image h w output_image"
  shows "\<exists>w'. call_stable_diffusion h init_image prompt output_image (Some url) w = (Inr True, w') \<and>
           files w' output_image = Some (File png) \<and>
           (\<forall>q. q \<noteq> output_image \<longrightarrow>
              files w' q = files w q \<or>
              (files w q = None \<and> files w' q = Some Dir \<and>
               q \<in> set (ancestors (parent_dir output_image)))) \<and>
           posted w' = posted w @ [(rstrip_slash url @ endpoint, payload)] \<and>
           nodes w' = nodes w"
proof -
  let ?u = "rstrip_slash url @ endpoint"
  define w' where "w' = w\<lparr>posted := posted w @ [(?u, payload)],
        files := (\<lambda>q. if q = output_image then Some (File png)
          else if q \<in> set (ancestors (parent_dir output_image)) \<and> files w q = None then Some Dir
          else files w q)\<rparr>"
  have rt: "sd_round_trip h ?u payload output_image w = (Inr True, w')"
    unfolding w'_def by (rule round_trip_image[OF assms(4-8)])
  have run: "call_stable_diffusion h init_image prompt output_image (Some url) w = (Inr True, w')"
    unfolding call_sd_configured[OF assms(1-3)] by (simp add: try_Inr[where m="sd_round_trip h ?u payload output_image", OF rt])
  have f1: "files w' output_image = Some (File png)" by (simp add: w'_def)
  have f2: "\<forall>q. q \<noteq> output_image \<longrightarrow>
              files w' q = files w q \<or>
              (files w q = None \<and> files w' q = Some Dir \<and>
               q \<in> set (ancestors (parent_dir output_image)))" by (simp add: w'_def)
  have p: "posted w' = posted w @ [(?u, payload)]" by (simp add: w'_def)
  have n: "nodes w' = nodes w" by (simp add: w'_def)
  show ?thesis
    apply (rule exI[of _ w'])
    using run f1 f2 p n by (intro conjI) assumption+
qed

theorem call_stable_diffusion_success_witness:
  "''http://127.0.0.1:7860/'' \<noteq> [] \<and> requests_importable sd_host \<and>
   fst (sd_request sd_host None ''hull panels'' snapshot_scene) =
     Inr (''/sdapi/v1/txt2img'', JObj (base_payload ''hull panels'')) \<and>
   status_ok 200 \<and> b64decode sd_host ''iVBORw0KGgo='' = Some ''iVBORw0KGgo='' \<and>
   can_write_image sd_host snapshot_scene texture_path \<and>
   (\<exists>w'. call_stable_diffusion sd_host None ''hull panels'' texture_path
            (Some ''http://127.0.0.1:7860/'') snapshot_scene = (Inr True, w') \<and>
         files w' texture_path = Some (File ''iVBORw0KGgo='') \<and>
         posted w' = posted snapshot_scene @
            [(''http://127.0.0.1:7860/sdapi/v1/txt2img'', JObj (base_payload ''hull panels''))])"
proof -
  have h1: "''http://127.0.0.1:7860/'' \<noteq> []" by simp
  have h2: "requests_importable sd_host" by code_simp
  have h3': "fst (sd_request sd_host None ''hull panels'' snapshot_scene) =
     Inr (''/sdapi/v1/txt2img'', JObj (base_payload ''hull panels''))" by code_simp
  then have h3: "sd_request sd_host None ''hull panels'' snapshot_scene =
     (Inr (''/sdapi/v1/txt2img'', JObj (base_payload ''hull panels'')),
      snd (sd_request sd_host None ''hull panels'' snapshot_scene))"
    by (metis prod.collapse)
  have h4: "http sd_host (rstrip_slash ''http://127.0.0.1:7860/'' @ ''/sdapi/v1/txt2img'')
       (JObj (base_payload ''hull panels'')) =
     Reply 200 (Some (JObj [(''images'', JArr [JStr ''iVBORw0KGgo='']), (''info'', JStr [])]))"
    by code_simp
  have h5: "status_ok 200" by code_simp
  have h6: "map_of [(''images'', JArr [JStr ''iVBORw0KGgo='']), (''info'', JStr [])] ''images'' =
     Some (JArr (JStr ''iVBORw0KGgo='' # []))" by simp
  have h7: "b64decode sd_host ''iVBORw0KGgo='' = Some ''iVBORw0KGgo=''" by code_simp
  have h8: "can_write_image sd_host snapshot_scene texture_path" by code_simp
  have u: "rstrip_slash ''http://127.0.0.1:7860/'' @ ''/sdapi/v1/txt2img'' =
     ''http://127.0.0.1:7860/sdapi/v1/txt2img''" by code_simp
  from call_stable_diffusion_success[OF h1 h2 h3 h4 h5 h6 h7 h8]
  obtain w' where "call_stable_diffusion sd_host None ''hull panels'' texture_path
            (Some ''http://127.0.0.1:7860/'') snapshot_scene = (Inr True, w')"
    and "files w' texture_path = Some (File ''iVBORw0KGgo='')"
    and "posted w' = posted snapshot_scene @
            [(''http://127.0.0.1:7860/sdapi/v1/txt2img'', JObj (base_payload ''hull panels''))]"
    unfolding u by blast
  with h1 h2 h3' h5 h7 h8 show ?thesis by blast
qed

lemma read_bytes_http: "read_bytes (h\<lparr>http := f\<rparr>) p = read_bytes h p"
  by (auto simp: read_bytes_def fun_eq_iff split: option.splits fentry.splits)

lemma sd_request_http: "sd_request (h\<lparr>http := f\<rparr>) init prompt = sd_request h init prompt"
  by (cases init) (simp_all add: sd_request_def read_bytes_http cong: if_cong)

lemma outcome_eq: "r = (x, w') \<Longrightarrow> files w' = fs \<Longrightarrow> outcome r = (x, fs)"
  by (simp add: outcome_def)

lemma txt2img_no_images:
  assumes "requests_importable h"
    and reply: "http h (rstrip_slash url @ ''/sdapi/v1/txt2img'') (JObj (base_payload prompt)) =
       Reply status (Some (JObj kvs))"
    and st: "status_ok status" and none: "no_images kvs"
  shows "outcome (call_sd_txt2img h prompt out url w) = (Inr False, files w)"
proof -
  let ?u = "rstrip_slash url @ ''/sdapi/v1/txt2img''"
  let ?pl = "JObj (base_payload prompt)"
  let ?w1 = "w\<lparr>posted := posted w @ [(?u, ?pl)]\<rparr>"
  have rp: "requests_post h ?u ?pl w = (Inr (status, Some (JObj kvs)), ?w1)"
    by (simp add: requests_post_def reply)
  have nt: "\<not> truthy (case map_of kvs ''images'' of None \<Rightarrow> JNull | Some v \<Rightarrow> v)"
    using none by (auto simp: no_images_def)
  show ?thesis
    using assms(1) nt
    by (simp add: call_sd_txt2img_def try_except_apply bnd_Inr[where m="requests_post h ?u ?pl", OF rp]
        Let_def raise_for_status_ok[OF st] resp_json_def monad_laws thn_apply print_def ret_apply
        outcome_def)
qed

lemma txt2img_no_reply:
  assumes "requests_importable h"
    and reply: "http h (rstrip_slash url @ ''/sdapi/v1/txt2img'') (JObj (base_payload prompt)) = NoReply msg"
  shows "outcome (call_sd_txt2img h prompt out url w) = (Inr False, files w)"
  using assms(1)
  by (simp add: call_sd_txt2img_def try_except_apply bnd_apply requests_post_def reply
      thn_apply print_def ret_apply outcome_def)

text \<open>
  C7. When the service answers with an object whose \<open>images\<close> key is missing, null or
  an empty list, \<open>_call_stable_diffusion\<close> returns \<open>False\<close> and leaves the files as
  they are: the outcome of a host whose service does not answer at all. The same
  holds for \<open>call_sd_txt2img\<close>.
\<close>

theorem no_images_is_failure:
  assumes "url \<noteq> []" and "requests_importable h"
    and "sd_request h init_image prompt w = (Inr req, w1)"
    and "\<forall>u b. http h u b = Reply status (Some (JObj kvs))"
    and "status_ok status" and "no_images kvs"
  shows "outcome (call_stable_diffusion h init_image prompt out (Some url) w) = (Inr False, files w) \<and>
         outcome (call_stable_diffusion (h\<lparr>http := \<lambda>u b. NoReply msg\<rparr>) init_image prompt out (Some url) w)
           = (Inr False, files w) \<and>
         outcome (call_sd_txt2img h prompt out url w) = (Inr False, files w) \<and>
         outcome (call_sd_txt2img (h\<lparr>http := \<lambda>u b. NoReply msg\<rparr>) prompt out url w)
           = (Inr False, files w)"
proof -
  let ?h' = "h\<lparr>http := \<lambda>u b. NoReply msg\<rparr>"
  obtain ep pl where req: "req = (ep, pl)" by (cases req)
  let ?u = "rstrip_slash url @ ep"
  have rq: "sd_request h init_image prompt w = (Inr (ep, pl), w1)" using assms(3) req by simp
  have rq': "sd_request ?h' init_image prompt w = (Inr (ep, pl), w1)"
    using rq by (simp add: sd_request_http)
  have imp': "requests_importable ?h'" using assms(2) by simp
  have reply: "http h ?u pl = Reply status (Some (JObj kvs))" using assms(4) by simp
  have reply': "http ?h' ?u pl = NoReply msg" by simp
  have a: "outcome (call_stable_diffusion h init_image prompt out (Some url) w) = (Inr False, files w)"
    unfolding call_sd_configured[OF assms(1,2) rq]
    by (simp add: try_Inr[where m="sd_round_trip h ?u pl out",
          OF round_trip_no_images[OF reply assms(5,6)]] outcome_def)
  have b: "outcome (call_stable_diffusion ?h' init_image prompt out (Some url) w) = (Inr False, files w)"
    unfolding call_sd_configured[OF assms(1) imp' rq']
    by (simp add: try_Inl[where m="sd_round_trip ?h' ?u pl out",
          OF round_trip_no_reply[OF reply']] thn_apply print_def ret_apply outcome_def)
  have c: "outcome (call_sd_txt2img h prompt out url w) = (Inr False, files w)"
    using assms(4) by (intro txt2img_no_images[OF assms(2) _ assms(5,6)]) simp
  have d: "outcome (call_sd_txt2img ?h' prompt out url w) = (Inr False, files w)"
    by (rule txt2img_no_reply[OF imp']) simp
  from a b c d show ?thesis by (intro conjI) assumption+
qed

theorem no_images_is_failure_witness:
  "''http://127.0.0.1:7860'' \<noteq> [] \<and> requests_importable empty_sd_host \<and>
   fst (sd_request empty_sd_host (Some snapshot_path) ''hull panels'' snapshot_scene) =
     Inr (''/sdapi/v1/img2img'', JObj (base_payload ''hull panels'' @
       [(''init_images'', JArr [JStr ''PNG'']), (''denoising_strength'', JNum (6 / 10))])) \<and>
   (\<forall>u b. http empty_sd_host u b = Reply 200 (Some (JObj [(''images'', JArr [])]))) \<and>
   status_ok 200 \<and> no_images [(''images'', JArr [])] \<and>
   outcome (call_stable_diffusion empty_sd_host (Some snapshot_path) ''hull panels'' texture_path
      (Some ''http://127.0.0.1:7860'') snapshot_scene) = (Inr False, files snapshot_scene) \<and>
   outcome (call_stable_diffusion (empty_sd_host\<lparr>http := \<lambda>u b. NoReply ''timed out''\<rparr>)
      (Some snapshot_path) ''hull panels'' texture_path
      (Some ''http://127.0.0.1:7860'') snapshot_scene) = (Inr False, files snapshot_scene)"
proof -
  have h1: "''http://127.0.0.1:7860'' \<noteq> []" by simp
  have h2: "requests_importable empty_sd_host" by code_simp
  have h3': "fst (sd_request empty_sd_host (Some snapshot_path) ''hull panels'' snapshot_scene) =
     Inr (''/sdapi/v1/img2img'', JObj (base_payload ''hull panels'' @
       [(''init_images'', JArr [JStr ''PNG'']), (''denoising_strength'', JNum (6 / 10))]))"
    by code_simp
  then have h3: "sd_request empty_sd_host (Some snapshot_path) ''hull panels'' snapshot_scene =
     (Inr (''/sdapi/v1/img2img'', JObj (base_payload ''hull panels'' @
       [(''init_images'', JArr [JStr ''PNG'']), (''denoising_strength'', JNum (6 / 10))])),
      snd (sd_request empty_sd_host (Some snapshot_path) ''hull panels'' snapshot_scene))"
    by (metis prod.collapse)
  have h4: "\<forall>u b. http empty_sd_host u b = Reply 200 (Some (JObj [(''images'', JArr [])]))"
    by (simp add: empty_sd_host_def)
  have h5: "status_ok 200" by code_simp
  have h6: "no_images [(''images'', JArr [])]" by (simp add: no_images_def)
  from no_images_is_failure[OF h1 h2 h3 h4 h5 h6, of texture_path "''timed out''"]
    h1 h2 h3' h4 h5 h6
  show ?thesis by (intro conjI) simp_all
qed

lemma handled_posted:
  "posted (snd (try_except (sd_round_trip h u pl out)
      (\<lambda>exc. thn (print (msg exc)) (ret False)) w)) = posted w @ [(u, pl)]"
proof -
  obtain r w1 where rt: "sd_round_trip h u pl out w = (r, w1)" by (cases "sd_round_trip h u pl out w")
  with round_trip_posted[of h u pl out w] have p: "posted w1 = posted w @ [(u, pl)]" by simp
  show ?thesis
    using rt p by (cases r) (simp_all add: try_except_apply thn_apply print_def ret_apply)
qed

lemma base_payload_fields:
  "map_of (base_payload prompt @ extra) ''prompt'' = Some (JStr prompt) \<and>
   map_of (base_payload prompt @ extra) ''steps'' = Some (JInt 20) \<and>
   map_of (base_payload prompt @ extra) ''cfg_scale'' = Some (JNum 7) \<and>
   map_of (base_payload prompt @ extra) ''sampler_name'' = Some (JStr ''Euler a'') \<and>
   map_of (base_payload prompt @ extra) ''width'' = Some (JInt 1024) \<and>
   map_of (base_payload prompt @ extra) ''height'' = Some (JInt 1024)"
  by (simp add: base_payload_def)

lemma base_payload_plain:
  "map_of (base_payload prompt) ''denoising_strength'' = None \<and>
   map_of (base_payload prompt) ''init_images'' = None"
  by (simp add: base_payload_def)

lemma base_payload_seeded:
  "map_of (base_payload prompt @ [(''init_images'', x), (''denoising_strength'', y)])
     ''init_images'' = Some x \<and>
   map_of (base_payload prompt @ [(''init_images'', x), (''denoising_strength'', y)])
     ''denoising_strength'' = Some y"
  by (simp add: base_payload_def)


lemma sd_posted_unavailable:
  assumes "url \<noteq> []" and "\<not> requests_importable h"
  shows "posted (snd (call_stable_diffusion h init_image prompt out (Some url) w)) = posted w"
  using assms by (simp add: call_stable_diffusion_def thn_apply print_def ret_apply)

lemma sd_posted_read_fails:
  assumes "url \<noteq> []" and "requests_importable h"
    and "sd_request h init_image prompt w = (Inl e, w1)"
  shows "posted (snd (call_stable_diffusion h init_image prompt out (Some url) w)) = posted w"
  by (simp add: call_sd_read_fails[OF assms])

lemma sd_posted_sent:
  assumes "url \<noteq> []" and "requests_importable h"
    and "sd_request h init_image prompt w = (Inr (ep, pl), w1)"
  shows "posted (snd (call_stable_diffusion h init_image prompt out (Some url) w)) =
           posted w @ [(rstrip_slash url @ ep, pl)]"
  unfolding call_sd_configured[OF assms] by (rule handled_posted)

lemma plain_body: "fixed_sampling prompt (base_payload prompt) \<and> unseeded (base_payload prompt)"
  by (simp add: fixed_sampling_def unseeded_def base_payload_def)

lemma seeded_body:
  assumes "init_image = Some p" and "entry w p = Some (File bs)"
  shows "fixed_sampling prompt (base_payload prompt @
               [(''init_images'', JArr [JStr (b64encode h bs)]),
                (''denoising_strength'', JNum (6 / 10))]) \<and>
         seeded_with h w init_image (base_payload prompt @
               [(''init_images'', JArr [JStr (b64encode h bs)]),
                (''denoising_strength'', JNum (6 / 10))])"
  using assms by (simp add: fixed_sampling_def seeded_with_def base_payload_def)

lemma sd_request_result:
  assumes "sd_request h init_image prompt w = (r, w1)"
  shows "(\<exists>e. r = Inl e \<and> \<not> snapshot_readable h w init_image) \<or>
         (\<exists>body. r = Inr (if has_snapshot w init_image then ''/sdapi/v1/img2img''
                          else ''/sdapi/v1/txt2img'', JObj body) \<and>
            fixed_sampling prompt body \<and>
            (if has_snapshot w init_image then seeded_with h w init_image body else unseeded body) \<and>
            snapshot_readable h w init_image)"
proof (cases init_image)
  case None
  with assms have "r = Inr (''/sdapi/v1/txt2img'', JObj (base_payload prompt))"
    by (simp add: sd_request_def ret_apply)
  with None plain_body[of prompt] show ?thesis
    by (simp add: has_snapshot_def snapshot_readable_def)
next
  case (Some p)
  show ?thesis
  proof (cases "entry w p")
    case None
    with Some assms have "r = Inr (''/sdapi/v1/txt2img'', JObj (base_payload prompt))"
      by (simp add: sd_request_def bnd_apply exists_path_def ret_apply)
    with Some None plain_body[of prompt] show ?thesis
      by (simp add: has_snapshot_def snapshot_readable_def)
  next
    case (Some fe)
    note fe = Some
    show ?thesis
    proof (cases "\<exists>bs. fe = File bs \<and> readable h p")
      case True
      then obtain bs where bs: "fe = File bs" "readable h p" by blast
      with \<open>init_image = Some p\<close> fe assms
      have r: "r = Inr (''/sdapi/v1/img2img'', JObj (base_payload prompt @
               [(''init_images'', JArr [JStr (b64encode h bs)]),
                (''denoising_strength'', JNum (6 / 10))]))"
        by (simp add: sd_request_def bnd_apply exists_path_def read_bytes_def ret_apply)
      have e: "entry w p = Some (File bs)" using fe bs by simp
      from seeded_body[OF \<open>init_image = Some p\<close> e, of prompt h] r \<open>init_image = Some p\<close> e bs(2)
      show ?thesis by (simp add: has_snapshot_def snapshot_readable_def)
    next
      case False
      with \<open>init_image = Some p\<close> fe assms have "\<exists>e. r = Inl e"
        by (cases fe) (auto simp: sd_request_def bnd_apply exists_path_def read_bytes_def ret_apply)
      moreover have "\<not> snapshot_readable h w init_image"
        using False \<open>init_image = Some p\<close> fe by (cases fe) (auto simp: snapshot_readable_def)
      ultimately show ?thesis by simp
    qed
  qed
qed

text \<open>
  C8. With a configured URL, \<open>_call_stable_diffusion\<close> sends at most one request. A
  request that is sent carries the prompt and the fixed sampling parameters (steps 20,
  cfg_scale 7.0, sampler "Euler a", 1024 by 1024); it goes to the img2img endpoint, with
  denoising strength 0.6 and the base64-encoded snapshot as its single init image,
  exactly when an init image path is given and exists on disk, and otherwise to the
  txt2img endpoint without those two fields. A request is sent whenever \<open>requests\<close>
  can be imported and the snapshot, if present, can be read.
\<close>

theorem call_stable_diffusion_request:
  assumes "url \<noteq> []"
  shows "(posted (snd (call_stable_diffusion h init_image prompt out (Some url) w)) = posted w \<or>
          (\<exists>body. posted (snd (call_stable_diffusion h init_image prompt out (Some url) w)) =
               posted w @ [(rstrip_slash url @
                   (if has_snapshot w init_image then ''/sdapi/v1/img2img'' else ''/sdapi/v1/txt2img''),
                 JObj body)] \<and>
             fixed_sampling prompt body \<and>
             (if has_snapshot w init_image then seeded_with h w init_image body else unseeded body))) \<and>
         (requests_importable h \<and> snapshot_readable h w init_image \<longrightarrow>
            posted (snd (call_stable_diffusion h init_image prompt out (Some url) w)) \<noteq> posted w)"
proof (cases "requests_importable h")
  case False
  with sd_posted_unavailable[OF assms False] show ?thesis by simp
next
  case True
  obtain r w1 where rq: "sd_request h init_image prompt w = (r, w1)"
    by (cases "sd_request h init_image prompt w")
  from sd_request_result[OF rq] show ?thesis
  proof (elim disjE exE conjE)
    fix e
    assume "r = Inl e" and nr: "\<not> snapshot_readable h w init_image"
    with rq have "sd_request h init_image prompt w = (Inl e, w1)" by simp
    from sd_posted_read_fails[OF assms True this] nr show ?thesis by simp
  next
    fix body
    assume r: "r = Inr (if has_snapshot w init_image then ''/sdapi/v1/img2img''
                          else ''/sdapi/v1/txt2img'', JObj body)"
      and f: "fixed_sampling prompt body"
      and sd: "if has_snapshot w init_image then seeded_with h w init_image body else unseeded body"
    from rq r have "sd_request h init_image prompt w =
        (Inr (if has_snapshot w init_image then ''/sdapi/v1/img2img''
              else ''/sdapi/v1/txt2img'', JObj body), w1)" by simp
    from sd_posted_sent[OF assms True this, of out]
    have p: "posted (snd (call_stable_diffusion h init_image prompt out (Some url) w)) =
               posted w @ [(rstrip_slash url @
                   (if has_snapshot w init_image then ''/sdapi/v1/img2img'' else ''/sdapi/v1/txt2img''),
                 JObj body)]" .
    have ne: "posted (snd (call_stable_diffusion h init_image prompt out (Some url) w)) \<noteq> posted w"
      unfolding p by simp
    from p f sd have "\<exists>body. posted (snd (call_stable_diffusion h init_image prompt out (Some url) w)) =
               posted w @ [(rstrip_slash url @
                   (if has_snapshot w init_image then ''/sdapi/v1/img2img'' else ''/sdapi/v1/txt2img''),
                 JObj body)] \<and>
             fixed_sampling prompt body \<and>
             (if has_snapshot w init_image then seeded_with h w init_image body else unseeded body)"
      by (intro exI[of _ body] conjI)
    with ne show ?thesis by (intro conjI disjI2 impI)
  qed
qed

theorem call_stable_diffusion_request_witness:
  "''http://127.0.0.1:7860/'' \<noteq> [] \<and> requests_importable sd_host \<and>
   snapshot_readable sd_host snapshot_scene (Some snapshot_path) \<and>
   has_snapshot snapshot_scene (Some snapshot_path) \<and>
   (\<exists>body. posted (snd (call_stable_diffusion sd_host (Some snapshot_path) ''hull panels''
                texture_path (Some ''http://127.0.0.1:7860/'') snapshot_scene)) =
             posted snapshot_scene @ [(''http://127.0.0.1:7860/sdapi/v1/img2img'', JObj body)] \<and>
          fixed_sampling ''hull panels'' body \<and>
          seeded_with sd_host snapshot_scene (Some snapshot_path) body)"
proof -
  have h1: "''http://127.0.0.1:7860/'' \<noteq> []" by simp
  have h2: "requests_importable sd_host" by code_simp
  have h3: "snapshot_readable sd_host snapshot_scene (Some snapshot_path)" by code_simp
  have h4: "has_snapshot snapshot_scene (Some snapshot_path)" by code_simp
  have u: "rstrip_slash ''http://127.0.0.1:7860/'' @ ''/sdapi/v1/img2img'' =
     ''http://127.0.0.1:7860/sdapi/v1/img2img''" by code_simp
  from call_stable_diffusion_request[OF h1, of sd_host "Some snapshot_path" "''hull panels''"
      texture_path snapshot_scene] h2 h3
  have "\<exists>body. posted (snd (call_stable_diffusion sd_host (Some snapshot_path) ''hull panels''
                texture_path (Some ''http://127.0.0.1:7860/'') snapshot_scene)) =
             posted snapshot_scene @ [(rstrip_slash ''http://127.0.0.1:7860/'' @
                 (if has_snapshot snapshot_scene (Some snapshot_path) then ''/sdapi/v1/img2img''
                  else ''/sdapi/v1/txt2img''), JObj body)] \<and>
          fixed_sampling ''hull panels'' body \<and>
          (if has_snapshot snapshot_scene (Some snapshot_path)
           then seeded_with sd_host snapshot_scene (Some snapshot_path) body else unseeded body)"
    by blast
  then have "\<exists>body. posted (snd (call_stable_diffusion sd_host (Some snapshot_path) ''hull panels''
                texture_path (Some ''http://127.0.0.1:7860/'') snapshot_scene)) =
             posted snapshot_scene @ [(''http://127.0.0.1:7860/sdapi/v1/img2img'', JObj body)] \<and>
          fixed_sampling ''hull panels'' body \<and>
          seeded_with sd_host snapshot_scene (Some snapshot_path) body"
    unfolding if_P[OF h4] u .
  with h1 h2 h3 h4 show ?thesis by (intro conjI)
qed

text \<open>
  C4 fails on the code: the init image is read before the guarded block begins, so an
  error while reading it leaves \<open>_call_stable_diffusion\<close> as an exception. Here the
  snapshot exists and the host refuses to open it.
\<close>

theorem call_stable_diffusion_unreadable_snapshot:
  "entry snapshot_scene snapshot_path = Some (File ''PNG'') \<and>
   \<not> readable locked_host snapshot_path \<and>
   fst (call_stable_diffusion locked_host (Some snapshot_path) ''hull panels'' texture_path
          (Some ''http://127.0.0.1:7860'') snapshot_scene) = Inl (OSError ''Permission denied'')"
  by code_simp

subsection \<open>Prompt tweaks\<close>

lemma get_or_create_fresh:
  assumes "get_node w p \<noteq> None" and "child w p name = None" and "type_parms h ty \<noteq> None"
  shows "get_or_create h p ty name w =
           (Inr (length (nodes w)), w\<lparr>nodes := nodes w @ [Some (new_node name ty p)]\<rparr>)"
  using assms
  by (auto simp: get_or_create_def node_child_def bnd_apply node_of_def ret_apply createNode_def
      split: option.splits)

lemma parm_set_Some:
  assumes "get_node w n = Some nd" and "type_parms h (ntype nd) = Some ps" and "name \<in> set ps"
  shows "parm_set h n name v w =
     (Inr (), w\<lparr>nodes := (nodes w)[n := Some (nd\<lparr>nparms := (name, v) # nparms nd\<rparr>)]\<rparr>)"
  using assms by (simp add: parm_set_def parm_def bnd_apply node_of_Some ret_apply upd_node_Some)

lemma get_node_ext:
  "get_node (w\<lparr>nodes := nodes w @ L\<rparr>) n =
     (if n < length (nodes w) then get_node w n
      else if n - length (nodes w) < length L then L ! (n - length (nodes w)) else None)"
  by (auto simp: get_node_def nth_append)

lemma child_ext:
  "child w p name = None \<Longrightarrow>
   child (w\<lparr>nodes := nodes w @ L\<rparr>) p name = first_index (is_child p name) L (length (nodes w))"
  by (simp add: child_def first_index_append)

lemma update_ext:
  "(nodes w @ L)[length (nodes w) + k := v] = nodes w @ L[k := v]"
  by (simp add: list_update_append)


lemma setInput_the:
  "get_node w n \<noteq> None \<Longrightarrow>
   setInput n i m w =
     (Inr (), w\<lparr>nodes := (nodes w)[n := Some ((the (get_node w n))\<lparr>ninputs :=
         connect (ninputs (the (get_node w n))) i m\<rparr>)]\<rparr>)"
  by (auto simp: setInput_Some)

lemma parm_set_the:
  "get_node w n \<noteq> None \<Longrightarrow> provides h (ntype (the (get_node w n))) [name] \<Longrightarrow>
   parm_set h n name v w =
     (Inr (), w\<lparr>nodes := (nodes w)[n := Some ((the (get_node w n))\<lparr>nparms :=
         (name, v) # nparms (the (get_node w n))\<rparr>)]\<rparr>)"
  by (auto simp: provides_def parm_set_Some split: option.splits)

lemma connect_merge_fresh:
  assumes "get_node w p \<noteq> None" and "child w p name = None" and "provides h ''merge'' []"
  shows "connect_merge h p a b name w =
     (Inr (length (nodes w)),
      w\<lparr>nodes := nodes w @ [Some ((new_node name ''merge'' p)\<lparr>ninputs := [Some a, Some b]\<rparr>)]\<rparr>)"
proof -
  let ?w0 = "w\<lparr>nodes := nodes w @ [Some (new_node name ''merge'' p)]\<rparr>"
  from assms(3) have t: "type_parms h ''merge'' \<noteq> None" by (auto simp: provides_def split: option.splits)
  have mn: "merge_node h p name w = (Inr (length (nodes w)), ?w0)"
    using assms(1,2) t
    by (auto simp: merge_node_def node_child_def bnd_apply node_of_def ret_apply createNode_def
        split: option.splits)
  have nd: "get_node ?w0 (length (nodes w)) = Some (new_node name ''merge'' p)"
    by (simp add: get_node_append)
  have rw: "rewire [] a b = [Some a, Some b]"
    by (simp add: rewire_def input_at_def connect_def)
  show ?thesis
    using connect_merge_wiring[OF mn nd, of a b] by (simp add: rw new_node_def)
qed

lemma provides_sub: "provides h ty ps \<Longrightarrow> set qs \<subseteq> set ps \<Longrightarrow> provides h ty qs"
  by (auto simp: provides_def split: option.splits)

lemma provides_type: "provides h ty ps \<Longrightarrow> type_parms h ty \<noteq> None"
  by (auto simp: provides_def split: option.splits)

lemmas exec = bnd_apply thn_apply ret_apply get_or_create_fresh setInput_the parm_set_the
  connect_merge_fresh get_node_ext child_ext list_update_append new_node_def is_child_def

lemma rivets_fresh:
  assumes geo: "get_node w geo \<noteq> None"
    and fresh: "child w geo ''rivets_scatter'' = None" "child w geo ''rivet_circle'' = None"
      "child w geo ''rivets_copy'' = None" "child w geo ''merge_rivets'' = None"
    and host: "provides h ''scatter'' [''npts'']" "provides h ''circle'' [''type'', ''radx'', ''rady'']"
      "provides h ''copytopoints'' []" "provides h ''merge'' []"
  shows "rivets h geo out w =
    (Inr (length (nodes w) + 3),
     w\<lparr>nodes := nodes w @
       [Some ((new_node ''rivets_scatter'' ''scatter'' geo)
                \<lparr>ninputs := [Some out], nparms := [(''npts'', PInt 400)]\<rparr>),
        Some ((new_node ''rivet_circle'' ''circle'' geo)
                \<lparr>nparms := [(''rady'', PNum (5 / 100)), (''radx'', PNum (5 / 100)), (''type'', PInt 1)]\<rparr>),
        Some ((new_node ''rivets_copy'' ''copytopoints'' geo)
                \<lparr>ninputs := [Some (length (nodes w) + 1), Some (length (nodes w))]\<rparr>),
        Some ((new_node ''merge_rivets'' ''merge'' geo)
                \<lparr>ninputs := [Some out, Some (length (nodes w) + 2)]\<rparr>)]\<rparr>)"
proof -
  from geo have g: "geo < length (nodes w)" by (auto dest: get_node_length)
  have pc: "provides h ''circle'' [''type'']" "provides h ''circle'' [''radx'']" "provides h ''circle'' [''rady'']"
    using host(2) by (auto intro: provides_sub)
  note ty = provides_type[OF host(1)] provides_type[OF host(2)] provides_type[OF host(3)]
  show ?thesis
    unfolding rivets_def
    by (simp add: exec geo g fresh host pc ty connect_def)
qed

lemma conduit_fresh:
  assumes geo: "get_node w geo \<noteq> None"
    and fresh: "child w geo ''conduit_curve'' = None" "child w geo ''conduit_wire'' = None"
      "child w geo ''merge_conduit'' = None"
    and host: "provides h ''curve'' [''type'', ''coords'']" "provides h ''polywire'' [''radius'']"
      "provides h ''merge'' []"
  shows "conduit h geo out w =
    (Inr (length (nodes w) + 2),
     w\<lparr>nodes := nodes w @
       [Some ((new_node ''conduit_curve'' ''curve'' geo)
                \<lparr>nparms := [(''coords'', PStr ''-1 0 -10  0 0 0  1 0 10''), (''type'', PInt 1)]\<rparr>),
        Some ((new_node ''conduit_wire'' ''polywire'' geo)
                \<lparr>ninputs := [Some (length (nodes w))], nparms := [(''radius'', PNum (5 / 100))]\<rparr>),
        Some ((new_node ''merge_conduit'' ''merge'' geo)
                \<lparr>ninputs := [Some out, Some (length (nodes w) + 1)]\<rparr>)]\<rparr>)"
proof -
  from geo have g: "geo < length (nodes w)" by (auto dest: get_node_length)
  have pc: "provides h ''curve'' [''type'']" "provides h ''curve'' [''coords'']"
    using host(1) by (auto intro: provides_sub)
  note ty = provides_type[OF host(1)] provides_type[OF host(2)]
  show ?thesis
    unfolding conduit_def
    by (simp add: exec geo g fresh host pc ty connect_def)
qed

lemma starts_with_iff: "starts_with sub s \<longleftrightarrow> (\<exists>post. s = sub @ post)"
  by (induction sub s rule: starts_with.induct) auto

lemma contains_iff: "contains sub s \<longleftrightarrow> (\<exists>pre post. s = pre @ sub @ post)"
proof (induction s)
  case Nil
  then show ?case by auto
next
  case (Cons d ds)
  show ?case
  proof
    assume "contains sub (d # ds)"
    then consider "starts_with sub (d # ds)" | "contains sub ds" by auto
    then show "\<exists>pre post. d # ds = pre @ sub @ post"
    proof cases
      case 1
      then obtain post where "d # ds = sub @ post" by (auto simp: starts_with_iff)
      then have "d # ds = [] @ sub @ post" by simp
      then show ?thesis by blast
    next
      case 2
      with Cons.IH obtain pre post where "ds = pre @ sub @ post" by auto
      then have "d # ds = (d # pre) @ sub @ post" by simp
      then show ?thesis by blast
    qed
  next
    assume "\<exists>pre post. d # ds = pre @ sub @ post"
    then obtain pre post where e: "d # ds = pre @ sub @ post" by blast
    show "contains sub (d # ds)"
    proof (cases pre)
      case Nil
      with e have "starts_with sub (d # ds)" by (auto simp: starts_with_iff)
      then show ?thesis by simp
    next
      case (Cons p ps)
      with e have "ds = ps @ sub @ post" by simp
      with Cons.IH have "contains sub ds" by blast
      then show ?thesis by simp
    qed
  qed
qed

lemma apply_prompt_tweaks_no_keyword:
  assumes "\<not> contains ''rivet'' (lower prompt)"
    and "\<not> contains ''glow'' (lower prompt)" and "\<not> contains ''conduit'' (lower prompt)"
  shows "apply_prompt_tweaks h geo input_node prompt w = (Inr input_node, w)"
  using assms by (simp add: apply_prompt_tweaks_def Let_def bnd_apply ret_apply)

lemmas observe = named_def rivet_branch_def conduit_branch_def type_of_def inputs_of_def
  get_node_ext child_ext new_node_def is_child_def

text \<open>
  C1. On a live container with none of the tweak nodes yet and a host that provides
  the node types used, \<open>_apply_prompt_tweaks\<close> returns, and in the world it leaves the
  rivet branch (scatter, circle, copy-to-points, merged with the input node) is
  present if and only if the lower-cased prompt contains "rivet", and the conduit
  branch (curve, polywire, merged with the output so far) is present if and only if
  it contains "glow" or "conduit". The two tests are independent: with both, the
  conduit merge takes the rivet merge as its base. The node returned is the last
  merge made, or the input node when no keyword matches. Nodes that existed before
  are left as they were.
\<close>

theorem apply_prompt_tweaks_branches:
  assumes host: "tweak_host h" and start: "untweaked w geo"
  shows "\<exists>out w'. apply_prompt_tweaks h geo input_node prompt w = (Inr out, w') \<and>
     (rivet_branch w' geo input_node \<noteq> None \<longleftrightarrow> contains ''rivet'' (lower prompt)) \<and>
     (conduit_branch w' geo (case rivet_branch w' geo input_node of None \<Rightarrow> input_node | Some m \<Rightarrow> m)
         \<noteq> None
       \<longleftrightarrow> contains ''glow'' (lower prompt) \<or> contains ''conduit'' (lower prompt)) \<and>
     out = (case conduit_branch w' geo
                   (case rivet_branch w' geo input_node of None \<Rightarrow> input_node | Some m \<Rightarrow> m) of
              Some m \<Rightarrow> m
            | None \<Rightarrow> (case rivet_branch w' geo input_node of None \<Rightarrow> input_node | Some m \<Rightarrow> m)) \<and>
     (\<forall>n < length (nodes w). get_node w' n = get_node w n)"
proof -
  from start have geo: "get_node w geo \<noteq> None"
    and fresh: "child w geo ''rivets_scatter'' = None" "child w geo ''rivet_circle'' = None"
      "child w geo ''rivets_copy'' = None" "child w geo ''merge_rivets'' = None"
      "child w geo ''conduit_curve'' = None" "child w geo ''conduit_wire'' = None"
      "child w geo ''merge_conduit'' = None"
    by (simp_all add: untweaked_def tweak_names_def)
  from host have hp: "provides h ''scatter'' [''npts'']"
      "provides h ''circle'' [''type'', ''radx'', ''rady'']"
      "provides h ''copytopoints'' []" "provides h ''merge'' []"
      "provides h ''curve'' [''type'', ''coords'']" "provides h ''polywire'' [''radius'']"
    by (simp_all add: tweak_host_def)
  from geo have g: "geo < length (nodes w)" by (auto dest: get_node_length)
  note rv = rivets_fresh[OF geo fresh(1-4) hp(1-4)]
  let ?rivet = "contains ''rivet'' (lower prompt)"
  let ?cond = "contains ''glow'' (lower prompt) \<or> contains ''conduit'' (lower prompt)"
  show ?thesis
  proof (cases ?rivet)
    case False
    note nr = False
    show ?thesis
    proof (cases ?cond)
      case False
      with nr have run: "apply_prompt_tweaks h geo input_node prompt w = (Inr input_node, w)"
        by (simp add: apply_prompt_tweaks_no_keyword)
      have "rivet_branch w geo input_node = None" "conduit_branch w geo input_node = None"
        by (simp_all add: rivet_branch_def conduit_branch_def named_def fresh)
      with run nr False show ?thesis by simp
    next
      case True
      note cd = conduit_fresh[OF geo fresh(5-7) hp(5,6,4), of input_node]
      from nr True have run: "apply_prompt_tweaks h geo input_node prompt w =
          conduit h geo input_node w"
        by (simp add: apply_prompt_tweaks_def Let_def bnd_apply ret_apply)
      show ?thesis
        unfolding run cd using nr True
        by (simp add: observe fresh g connect_def)
    qed
  next
    case True
    note r = True
    let ?w1 = "snd (rivets h geo input_node w)"
    show ?thesis
    proof (cases ?cond)
      case False
      from r False have run: "apply_prompt_tweaks h geo input_node prompt w =
          rivets h geo input_node w"
        by (simp add: apply_prompt_tweaks_def Let_def bnd_apply ret_apply split: prod.splits sum.splits)
      show ?thesis
        unfolding run rv using r False
        by (simp add: observe fresh g connect_def)
    next
      case True
      have geo1: "get_node ?w1 geo \<noteq> None"
        unfolding rv using geo g by (simp add: get_node_ext)
      have fresh1: "child ?w1 geo ''conduit_curve'' = None" "child ?w1 geo ''conduit_wire'' = None"
        "child ?w1 geo ''merge_conduit'' = None"
        unfolding rv by (simp_all add: child_ext fresh new_node_def is_child_def)
      note cd = conduit_fresh[OF geo1 fresh1 hp(5,6,4), of "length (nodes w) + 3"]
      from r True have run: "apply_prompt_tweaks h geo input_node prompt w =
          conduit h geo (length (nodes w) + 3) ?w1"
        by (simp add: apply_prompt_tweaks_def Let_def bnd_apply rv)
      show ?thesis
        unfolding run cd unfolding rv using r True
        by (simp add: observe fresh g connect_def)
    qed
  qed
qed

theorem apply_prompt_tweaks_branches_witness:
  "tweak_host std_host \<and> untweaked ship_scene 4 \<and>
   contains ''rivet'' (lower ''Add procedural RIVETS and glowing conduits'') \<and>
   contains ''glow'' (lower ''Add procedural RIVETS and glowing conduits'') \<and>
   (\<exists>out w'. apply_prompt_tweaks std_host 4 5 ''Add procedural RIVETS and glowing conduits'' ship_scene
        = (Inr out, w') \<and>
      rivet_branch w' 4 5 \<noteq> None \<and>
      conduit_branch w' 4 (case rivet_branch w' 4 5 of None \<Rightarrow> 5 | Some m \<Rightarrow> m) \<noteq> None)"
proof -
  have h1: "tweak_host std_host" by code_simp
  have h2: "untweaked ship_scene 4" by code_simp
  have k1: "contains ''rivet'' (lower ''Add procedural RIVETS and glowing conduits'')" by code_simp
  have k2: "contains ''glow'' (lower ''Add procedural RIVETS and glowing conduits'')" by code_simp
  from apply_prompt_tweaks_branches[OF h1 h2, of 5 "''Add procedural RIVETS and glowing conduits''"]
  obtain out w' where
    "apply_prompt_tweaks std_host 4 5 ''Add procedural RIVETS and glowing conduits'' ship_scene
        = (Inr out, w')"
    and "rivet_branch w' 4 5 \<noteq> None \<longleftrightarrow>
           contains ''rivet'' (lower ''Add procedural RIVETS and glowing conduits'')"
    and "conduit_branch w' 4 (case rivet_branch w' 4 5 of None \<Rightarrow> 5 | Some m \<Rightarrow> m) \<noteq> None
       \<longleftrightarrow> contains ''glow'' (lower ''Add procedural RIVETS and glowing conduits'') \<or>
           contains ''conduit'' (lower ''Add procedural RIVETS and glowing conduits'')"
    by blast
  with h1 h2 k1 k2 show ?thesis by blast
qed

subsection \<open>What aborts \<open>setup_interstellar_ai\<close>\<close>




















text \<open>
  A whole run on a host whose renderer fails and whose image service refuses the
  connection: it completes, with the reduced result the printed lines describe.
\<close>

lemma setup_continues_offline:
  "fst (setup_interstellar_ai offline_host ''hull panels''
          (Some ''add procedural rivets and glowing conduits'') (Some ''http://127.0.0.1:7860'')
          (Some ''retro-futuristic cockpit with neon holograms'') True fresh_scene) = Inr () \<and>
   printed (snd (setup_interstellar_ai offline_host ''hull panels''
          (Some ''add procedural rivets and glowing conduits'') (Some ''http://127.0.0.1:7860'')
          (Some ''retro-futuristic cockpit with neon holograms'') True fresh_scene)) =
     [''[Interstellar] Snapshot render failed: no display'',
      ''[Interstellar] Stable Diffusion request failed: connection refused'',
      ''[Interstellar] Snapshot render failed: no display'',
      ''[Interstellar] Stable Diffusion request failed: connection refused'',
      ''[Interstellar] StableHoudini TOP node not found; skipping PDG setup.'',
      ''[Interstellar] Setup complete.'',
      ''[Interstellar] AI texture step skipped or failed; using default shader settings.'',
      ''[Interstellar] Cockpit AI texture step skipped or failed.'']"
  by code_simp

end
